theory Spec2Isabelle
  imports Complex_Main
begin

section \<open>Python values\<close>

text \<open>
  The adapters of last30days work on what \<^verbatim>\<open>json.loads\<close> returns: \<^verbatim>\<open>None\<close>, booleans,
  integers, floats, strings, lists and dictionaries with string keys. A dictionary is an
  association list (a Python dictionary has no duplicate keys, so \<open>map_of\<close> is its lookup).
  A float is modelled as a real number: rounding, \<^verbatim>\<open>nan\<close> and the infinities are left out.
  A string is a list of \<open>char\<close>, one per code point below 256.
\<close>

datatype json =
    JNull
  | JBool bool
  | JInt int
  | JFloat real
  | JStr string
  | JList "json list"
  | JDict "(string \<times> json) list"

type_synonym pydict = "(string \<times> json) list"

text \<open>The exceptions the adapters can raise or catch.\<close>

datatype exn =
    TypeError
  | ValueError
  | AttributeError
  | KeyError
  | HTTPError string
  | OtherError string

text \<open>\<^verbatim>\<open>bool(v)\<close>, the test behind \<^verbatim>\<open>if v\<close>, \<^verbatim>\<open>not v\<close> and \<^verbatim>\<open>v or w\<close>.\<close>

fun truthy :: "json \<Rightarrow> bool" where
  "truthy JNull = False"
| "truthy (JBool b) = b"
| "truthy (JInt n) = (n \<noteq> 0)"
| "truthy (JFloat r) = (r \<noteq> 0)"
| "truthy (JStr s) = (s \<noteq> [])"
| "truthy (JList xs) = (xs \<noteq> [])"
| "truthy (JDict d) = (d \<noteq> [])"

definition py_or :: "json \<Rightarrow> json \<Rightarrow> json" where
  "py_or v w = (if truthy v then v else w)"

text \<open>\<^verbatim>\<open>d.get(k, default)\<close> and \<^verbatim>\<open>d.get(k)\<close>.\<close>

definition dget :: "pydict \<Rightarrow> string \<Rightarrow> json \<Rightarrow> json" where
  "dget d k dflt = (case map_of d k of None \<Rightarrow> dflt | Some v \<Rightarrow> v)"

definition dget_none :: "pydict \<Rightarrow> string \<Rightarrow> json" where
  "dget_none d k = dget d k JNull"

text \<open>The value of a number in arithmetic; \<^verbatim>\<open>True\<close> and \<^verbatim>\<open>False\<close> count as 1 and 0.\<close>

fun as_number :: "json \<Rightarrow> real option" where
  "as_number (JInt n) = Some (of_int n)"
| "as_number (JFloat r) = Some r"
| "as_number (JBool b) = Some (if b then 1 else 0)"
| "as_number _ = None"

text \<open>\<^verbatim>\<open>math.log1p(v)\<close>: a \<^verbatim>\<open>TypeError\<close> on a value that is no number, a \<^verbatim>\<open>ValueError\<close>
  (math domain error) at or below \<open>-1\<close>.\<close>

definition log1p :: "json \<Rightarrow> exn + real" where
  "log1p v = (case as_number v of
                None \<Rightarrow> Inl TypeError
              | Some x \<Rightarrow> if x \<le> -1 then Inl ValueError else Inr (ln (1 + x)))"

text \<open>What a \<^verbatim>\<open>for\<close> loop, \<^verbatim>\<open>enumerate\<close> or \<^verbatim>\<open>list.extend\<close> iterates over: the elements of a
  list, the characters of a string, the keys of a dictionary; anything else is not iterable.\<close>

fun py_iter :: "json \<Rightarrow> exn + json list" where
  "py_iter (JList xs) = Inr xs"
| "py_iter (JStr s) = Inr (map (\<lambda>c. JStr [c]) s)"
| "py_iter (JDict d) = Inr (map (\<lambda>kv. JStr (fst kv)) d)"
| "py_iter _ = Inl TypeError"

fun py_len :: "json \<Rightarrow> exn + nat" where
  "py_len (JList xs) = Inr (length xs)"
| "py_len (JStr s) = Inr (length s)"
| "py_len (JDict d) = Inr (length d)"
| "py_len _ = Inl TypeError"

text \<open>\<^verbatim>\<open>sub in s\<close> on strings.\<close>

fun contains :: "string \<Rightarrow> string \<Rightarrow> bool" where
  "contains sub [] = (sub = [])"
| "contains sub (c # cs) = (take (length sub) (c # cs) = sub \<or> contains sub cs)"

text \<open>\<^verbatim>\<open>k in v\<close> for a string \<open>k\<close>: a substring test on a string, an element test on a list,
  a key test on a dictionary, a \<^verbatim>\<open>TypeError\<close> otherwise.\<close>

fun py_in :: "string \<Rightarrow> json \<Rightarrow> exn + bool" where
  "py_in k (JStr s) = Inr (contains k s)"
| "py_in k (JList xs) = Inr (JStr k \<in> set xs)"
| "py_in k (JDict d) = Inr (k \<in> fst ` set d)"
| "py_in k _ = Inl TypeError"

text \<open>\<^verbatim>\<open>str.strip()\<close>, \<^verbatim>\<open>str.lstrip(chars)\<close> and \<^verbatim>\<open>str.lower()\<close> on code points below 256.\<close>

definition is_space :: "char \<Rightarrow> bool" where
  "is_space c = (let n = (of_char c :: nat) in
                  (9 \<le> n \<and> n \<le> 13) \<or> (28 \<le> n \<and> n \<le> 32) \<or> n = 133 \<or> n = 160)"

definition lstrip_chars :: "char set \<Rightarrow> string \<Rightarrow> string" where
  "lstrip_chars cs s = dropWhile (\<lambda>c. c \<in> cs) s"

definition strip :: "string \<Rightarrow> string" where
  "strip s = rev (dropWhile is_space (rev (dropWhile is_space s)))"

definition lower_char :: "char \<Rightarrow> char" where
  "lower_char c =
     (case map_of (zip ''ABCDEFGHIJKLMNOPQRSTUVWXYZ'' ''abcdefghijklmnopqrstuvwxyz'') c of
        Some l \<Rightarrow> l
      | None \<Rightarrow> (let n = (of_char c :: nat)
                 in if 192 \<le> n \<and> n \<le> 222 \<and> n \<noteq> 215 then char_of (n + 32) else c))"

definition lower :: "string \<Rightarrow> string" where
  "lower s = map lower_char s"

text \<open>Decimal rendering of a number, as an f-string does it.\<close>

definition digit_char :: "nat \<Rightarrow> char" where
  "digit_char d =
     (if d = 0 then CHR ''0'' else if d = 1 then CHR ''1'' else if d = 2 then CHR ''2''
      else if d = 3 then CHR ''3'' else if d = 4 then CHR ''4'' else if d = 5 then CHR ''5''
      else if d = 6 then CHR ''6'' else if d = 7 then CHR ''7'' else if d = 8 then CHR ''8''
      else CHR ''9'')"

fun str_nat :: "nat \<Rightarrow> string" where
  "str_nat n = (if n < 10 then [digit_char n] else str_nat (n div 10) @ [digit_char (n mod 10)])"

declare str_nat.simps [simp del]

definition str_int :: "int \<Rightarrow> string" where
  "str_int i = (if i < 0 then CHR ''-'' # str_nat (nat (- i)) else str_nat (nat i))"

definition is_digit :: "char \<Rightarrow> bool" where
  "is_digit c = (let n = (of_char c :: nat) in 48 \<le> n \<and> n \<le> 57)"

text \<open>
  Functions of Python's standard library that the adapters call and that are not part of
  the repository are parameters of the model:
  \<^item> \<open>repr_of\<close>: \<^verbatim>\<open>str()\<close> of a float, a list or a dictionary;
  \<^item> \<open>float_of_str\<close>, \<open>int_of_str\<close>: \<^verbatim>\<open>float(s)\<close> and \<^verbatim>\<open>int(s)\<close> on a string, \<open>None\<close> for a
    \<^verbatim>\<open>ValueError\<close>;
  \<^item> \<open>json_loads\<close>: \<^verbatim>\<open>json.loads\<close>, \<open>None\<close> for a \<^verbatim>\<open>JSONDecodeError\<close>;
  \<^item> \<open>strptime_twitter\<close>: \<^verbatim>\<open>datetime.strptime(s, "%a %b %d %H:%M:%S %z %Y")\<close> followed by
    \<^verbatim>\<open>strftime("%Y-%m-%d")\<close>, \<open>None\<close> for a \<^verbatim>\<open>ValueError\<close>;
  \<^item> \<open>url_quote\<close>: \<^verbatim>\<open>urllib.parse.quote\<close>;
  \<^item> \<open>exc_str\<close>: \<^verbatim>\<open>str(e)\<close> of an exception.
\<close>

record pylib =
  repr_of :: "json \<Rightarrow> string"
  float_of_str :: "string \<Rightarrow> real option"
  int_of_str :: "string \<Rightarrow> int option"
  json_loads :: "string \<Rightarrow> json option"
  strptime_twitter :: "string \<Rightarrow> string option"
  url_quote :: "string \<Rightarrow> string"
  exc_str :: "exn \<Rightarrow> string"

text \<open>\<^verbatim>\<open>str(v)\<close>, also what an f-string puts for \<^verbatim>\<open>{v}\<close>.\<close>

fun py_str :: "pylib \<Rightarrow> json \<Rightarrow> string" where
  "py_str L (JStr s) = s"
| "py_str L JNull = ''None''"
| "py_str L (JBool b) = (if b then ''True'' else ''False'')"
| "py_str L (JInt n) = str_int n"
| "py_str L v = repr_of L v"

text \<open>\<^verbatim>\<open>float(v)\<close> and \<^verbatim>\<open>int(v)\<close>; \<^verbatim>\<open>int\<close> of a float truncates towards zero.\<close>

fun py_float :: "pylib \<Rightarrow> json \<Rightarrow> exn + real" where
  "py_float L (JInt n) = Inr (of_int n)"
| "py_float L (JFloat r) = Inr r"
| "py_float L (JBool b) = Inr (if b then 1 else 0)"
| "py_float L (JStr s) = (case float_of_str L s of None \<Rightarrow> Inl ValueError | Some r \<Rightarrow> Inr r)"
| "py_float L _ = Inl TypeError"

fun py_int :: "pylib \<Rightarrow> json \<Rightarrow> exn + int" where
  "py_int L (JInt n) = Inr n"
| "py_int L (JFloat r) = Inr (if 0 \<le> r then \<lfloor>r\<rfloor> else \<lceil>r\<rceil>)"
| "py_int L (JBool b) = Inr (if b then 1 else 0)"
| "py_int L (JStr s) = (case int_of_str L s of None \<Rightarrow> Inl ValueError | Some n \<Rightarrow> Inr n)"
| "py_int L _ = Inl TypeError"

text \<open>
  A loop that walks a sequence and appends an item for some of its elements: the body
  either raises, skips the element (\<^verbatim>\<open>continue\<close>) or yields the item to append. The first
  exception ends the loop.
\<close>

fun collect :: "('a \<Rightarrow> exn + 'b option) \<Rightarrow> 'a list \<Rightarrow> exn + 'b list" where
  "collect f [] = Inr []"
| "collect f (x # xs) =
     (case f x of
        Inl e \<Rightarrow> Inl e
      | Inr r \<Rightarrow> (case collect f xs of
                    Inl e \<Rightarrow> Inl e
                  | Inr ys \<Rightarrow> Inr (case r of None \<Rightarrow> ys | Some y \<Rightarrow> y # ys)))"

section \<open>The social adapter: twitterapi\_x.py\<close>

text \<open>Depth configurations: \<open>(min_faves, max_pages)\<close>.\<close>

definition X_DEPTH_CONFIG :: "(string \<times> (nat \<times> nat)) list" where
  "X_DEPTH_CONFIG = [(''quick'', (5, 1)), (''default'', (3, 2)), (''deep'', (2, 3))]"

text \<open>\<^verbatim>\<open>DEPTH_CONFIG.get(depth, DEPTH_CONFIG["default"])\<close>\<close>

definition x_depth_config :: "string \<Rightarrow> nat \<times> nat" where
  "x_depth_config depth =
     (case map_of X_DEPTH_CONFIG depth of
        Some c \<Rightarrow> c
      | None \<Rightarrow> the (map_of X_DEPTH_CONFIG ''default''))"

definition build_query :: "string \<Rightarrow> string \<Rightarrow> string \<Rightarrow> string \<Rightarrow> string" where
  "build_query topic from_date to_date depth =
     (let min_faves = fst (x_depth_config depth)
      in topic @ '' since:'' @ from_date @ '' until:'' @ to_date
           @ '' lang:en -filter:retweets min_faves:'' @ str_nat min_faves)"

text \<open>
  The transport (\<^verbatim>\<open>http.get\<close>, \<^verbatim>\<open>http.post\<close>) is outside the repository's core: it is a
  parameter that maps the number of the call within one search and the request to a decoded
  response or an exception. \<^verbatim>\<open>urlencode\<close> is not modelled: the request keeps the parameters.
\<close>

record http_request =
  req_url :: string
  req_params :: "(string \<times> json) list"
  req_headers :: "(string \<times> string) list"
  req_timeout :: nat

type_synonym transport = "nat \<Rightarrow> http_request \<Rightarrow> exn + pydict"

definition TWITTERAPI_SEARCH_URL :: string where
  "TWITTERAPI_SEARCH_URL = ''https://api.twitterapi.io/twitter/tweet/advanced_search''"

definition x_request :: "string \<Rightarrow> string \<Rightarrow> json \<Rightarrow> http_request" where
  "x_request api_key query cursor =
     \<lparr> req_url = TWITTERAPI_SEARCH_URL,
       req_params = [(''query'', JStr query), (''queryType'', JStr ''Top'')]
                    @ (if truthy cursor then [(''cursor'', cursor)] else []),
       req_headers = [(''X-API-Key'', api_key)],
       req_timeout = 30 \<rparr>"

fun is_HTTPError :: "exn \<Rightarrow> bool" where
  "is_HTTPError (HTTPError m) = True"
| "is_HTTPError _ = False"

text \<open>The loop \<^verbatim>\<open>for page in range(max_pages)\<close> of \<open>search_x\<close>, over the pages still to
  fetch, with the cursor and the tweets collected so far.\<close>

fun x_fetch_pages ::
  "transport \<Rightarrow> string \<Rightarrow> string \<Rightarrow> nat list \<Rightarrow> json \<Rightarrow> json list \<Rightarrow> exn + json list" where
  "x_fetch_pages http api_key query [] cursor all_tweets = Inr all_tweets"
| "x_fetch_pages http api_key query (page # pages) cursor all_tweets =
     (case http page (x_request api_key query cursor) of
        Inl e \<Rightarrow>
          if is_HTTPError e then (if page = 0 then Inl e else Inr all_tweets) else Inl e
      | Inr response \<Rightarrow>
          (let tweets = dget response ''tweets'' (JList []) in
           if \<not> truthy tweets then Inr all_tweets
           else (case py_iter tweets of
                   Inl e \<Rightarrow> Inl e
                 | Inr ts \<Rightarrow>
                     if \<not> truthy (dget_none response ''has_next_page'') then Inr (all_tweets @ ts)
                     else (let cursor' = dget_none response ''next_cursor'' in
                           if \<not> truthy cursor' then Inr (all_tweets @ ts)
                           else x_fetch_pages http api_key query pages cursor' (all_tweets @ ts)))))"

definition search_x ::
  "transport \<Rightarrow> string \<Rightarrow> string \<Rightarrow> string \<Rightarrow> string \<Rightarrow> string \<Rightarrow> pydict option
     \<Rightarrow> exn + pydict" where
  "search_x http api_key topic from_date to_date depth mock_response =
     (case mock_response of
        Some m \<Rightarrow> Inr m
      | None \<Rightarrow>
          (let max_pages = snd (x_depth_config depth);
               query = build_query topic from_date to_date depth
           in case x_fetch_pages http api_key query [0..<max_pages] JNull [] of
                Inl e \<Rightarrow> Inl e
              | Inr all_tweets \<Rightarrow> Inr [(''tweets'', JList all_tweets)]))"

text \<open>The shape \<^verbatim>\<open>\d{4}-\d{2}-\d{2}\<close> of exactly ten characters.\<close>

fun date_shape :: "string \<Rightarrow> bool" where
  "date_shape [y1, y2, y3, y4, s1, m1, m2, s2, d1, d2] =
     (is_digit y1 \<and> is_digit y2 \<and> is_digit y3 \<and> is_digit y4 \<and> s1 = CHR ''-''
      \<and> is_digit m1 \<and> is_digit m2 \<and> s2 = CHR ''-'' \<and> is_digit d1 \<and> is_digit d2)"
| "date_shape _ = False"

text \<open>\<open>_parse_created_at\<close>: the ISO prefix first, then the Twitter format.\<close>

definition parse_created_at :: "pylib \<Rightarrow> json \<Rightarrow> string option" where
  "parse_created_at L created_at =
     (case created_at of
        JStr s \<Rightarrow>
          if s = [] then None
          else (let t = strip s in
                if date_shape (take 10 t) then Some (take 10 t) else strptime_twitter L t)
      | _ \<Rightarrow> None)"

text \<open>Sequencing of steps that may raise.\<close>

definition ebind :: "exn + 'a \<Rightarrow> ('a \<Rightarrow> exn + 'b) \<Rightarrow> exn + 'b" where
  "ebind m f = (case m of Inl e \<Rightarrow> Inl e | Inr x \<Rightarrow> f x)"

text \<open>\<^verbatim>\<open>max(0, v)\<close>: \<open>v\<close> when \<^verbatim>\<open>v > 0\<close>, else \<open>0\<close>; the comparison raises on a value that is no
  number.\<close>

definition py_max0 :: "json \<Rightarrow> exn + json" where
  "py_max0 v = (case as_number v of
                  None \<Rightarrow> Inl TypeError
                | Some x \<Rightarrow> Inr (if 0 < x then v else JInt 0))"

definition x_log_count :: "pydict \<Rightarrow> string \<Rightarrow> exn + real" where
  "x_log_count tweet k = ebind (py_max0 (py_or (dget tweet k (JInt 0)) (JInt 0))) log1p"

text \<open>\<open>_compute_relevance\<close> of twitterapi\_x.py: 60\% position, 40\% engagement.\<close>

definition x_compute_relevance :: "int \<Rightarrow> int \<Rightarrow> pydict \<Rightarrow> exn + real" where
  "x_compute_relevance position ntotal tweet =
     (let position_score =
            (if ntotal \<le> 1 then 1
             else 1 - 0.5 * (real_of_int position / real_of_int (ntotal - 1)))
      in ebind (x_log_count tweet ''likeCount'') (\<lambda>likes.
         ebind (x_log_count tweet ''retweetCount'') (\<lambda>reposts.
         ebind (x_log_count tweet ''replyCount'') (\<lambda>replies.
         ebind (x_log_count tweet ''quoteCount'') (\<lambda>quotes.
           (let raw_engagement = 0.55 * likes + 0.25 * reposts + 0.15 * replies + 0.05 * quotes;
                engagement_score = min 1 (raw_engagement / 7)
            in Inr (0.6 * position_score + 0.4 * engagement_score)))))))"

record x_engagement =
  x_likes :: int
  x_reposts :: int
  x_replies :: int
  x_quotes :: int

record x_item =
  x_id :: string
  x_text :: string
  x_url :: json
  x_author_handle :: string
  x_date :: "string option"
  x_eng :: x_engagement
  x_why_relevant :: string
  x_relevance :: real

text \<open>The URL of a tweet: its \<open>url\<close> field, or one built from the author and the id;
  \<open>None\<close> is the \<^verbatim>\<open>continue\<close> of the loop.\<close>

definition x_tweet_url :: "pylib \<Rightarrow> pydict \<Rightarrow> json option" where
  "x_tweet_url L tweet =
     (let url = dget tweet ''url'' (JStr [])
      in if truthy url then Some url
         else (let author = dget tweet ''author'' (JDict []);
                   username = (case author of JDict a \<Rightarrow> dget a ''userName'' (JStr [])
                               | _ \<Rightarrow> JStr []);
                   tweet_id = dget tweet ''id'' (JStr [])
               in if truthy username \<and> truthy tweet_id
                  then Some (JStr (''https://x.com/'' @ py_str L username @ ''/status/''
                                   @ py_str L tweet_id))
                  else None))"

definition x_count :: "pylib \<Rightarrow> pydict \<Rightarrow> string \<Rightarrow> exn + int" where
  "x_count L tweet k = py_int L (py_or (dget tweet k (JInt 0)) (JInt 0))"

text \<open>The body of the loop of \<open>parse_x_response\<close> for the tweet at index \<open>i\<close>.\<close>

definition x_parse_tweet :: "pylib \<Rightarrow> nat \<Rightarrow> nat \<Rightarrow> json \<Rightarrow> exn + x_item option" where
  "x_parse_tweet L ntotal i tw =
     (case tw of
        JDict tweet \<Rightarrow>
          (case x_tweet_url L tweet of
             None \<Rightarrow> Inr None
           | Some url \<Rightarrow>
               (let author = dget tweet ''author'' (JDict []);
                    author_handle = (case author of JDict a \<Rightarrow> dget a ''userName'' (JStr [])
                                     | _ \<Rightarrow> JStr []);
                    handle = lstrip_chars {CHR ''@''} (strip (py_str L author_handle));
                    date = parse_created_at L (dget_none tweet ''createdAt'')
                in ebind (x_count L tweet ''likeCount'') (\<lambda>likes.
                   ebind (x_count L tweet ''retweetCount'') (\<lambda>reposts.
                   ebind (x_count L tweet ''replyCount'') (\<lambda>replies.
                   ebind (x_count L tweet ''quoteCount'') (\<lambda>quotes.
                   ebind (x_compute_relevance (int i) (int ntotal) tweet) (\<lambda>relevance.
                     Inr (Some
                       \<lparr> x_id = ''X'' @ str_nat (i + 1),
                         x_text = take 500 (strip (py_str L (dget tweet ''text'' (JStr [])))),
                         x_url = url,
                         x_author_handle = handle,
                         x_date = date,
                         x_eng = \<lparr> x_likes = likes, x_reposts = reposts,
                                   x_replies = replies, x_quotes = quotes \<rparr>,
                         x_why_relevant = [],
                         x_relevance = min 1 (max 0 relevance) \<rparr>))))))))
      | _ \<Rightarrow> Inr None)"

definition parse_x_response :: "pylib \<Rightarrow> pydict \<Rightarrow> exn + x_item list" where
  "parse_x_response L response =
     (let tweets = dget response ''tweets'' (JList [])
      in if \<not> truthy tweets then Inr []
         else ebind (py_len tweets) (\<lambda>ntotal.
              ebind (py_iter tweets) (\<lambda>ts.
                collect (\<lambda>(i, tweet). x_parse_tweet L ntotal i tweet) (enumerate 0 ts))))"

section \<open>The article adapter: dailydev.py\<close>

definition DAILYDEV_SEARCH_URL :: string where
  "DAILYDEV_SEARCH_URL = ''https://api.daily.dev/public/v1/search/posts''"

definition DAILYDEV_DEPTH_CONFIG :: "(string \<times> nat) list" where
  "DAILYDEV_DEPTH_CONFIG = [(''quick'', 10), (''default'', 20), (''deep'', 50)]"

definition dailydev_limit :: "string \<Rightarrow> nat" where
  "dailydev_limit depth =
     (case map_of DAILYDEV_DEPTH_CONFIG depth of
        Some c \<Rightarrow> c
      | None \<Rightarrow> the (map_of DAILYDEV_DEPTH_CONFIG ''default''))"

definition search_dailydev ::
  "transport \<Rightarrow> string \<Rightarrow> string \<Rightarrow> string \<Rightarrow> string \<Rightarrow> string \<Rightarrow> pydict option
     \<Rightarrow> exn + pydict" where
  "search_dailydev http api_key topic from_date to_date depth mock_response =
     (case mock_response of
        Some m \<Rightarrow> Inr m
      | None \<Rightarrow>
          (let limit = dailydev_limit depth;
               headers = [(''Authorization'', ''Bearer '' @ api_key)];
               url = DAILYDEV_SEARCH_URL @ ''?q='' @ topic @ ''&time=month&limit=''
                       @ str_nat limit
           in http 0 \<lparr> req_url = url, req_params = [], req_headers = headers,
                        req_timeout = 30 \<rparr>))"

text \<open>\<^verbatim>\<open>min(v, 20)\<close>: \<open>20\<close> when \<^verbatim>\<open>20 < v\<close>, else \<open>v\<close>.\<close>

definition py_min20 :: "json \<Rightarrow> exn + json" where
  "py_min20 v = (case as_number v of
                   None \<Rightarrow> Inl TypeError
                 | Some x \<Rightarrow> Inr (if 20 < x then JInt 20 else v))"

definition py_number :: "json \<Rightarrow> exn + real" where
  "py_number v = (case as_number v of None \<Rightarrow> Inl TypeError | Some x \<Rightarrow> Inr x)"

text \<open>The position score shared by the article and the video adapter: the first result
  scores 1.0, the last 0.1.\<close>

definition pos_score_floor :: "int \<Rightarrow> int \<Rightarrow> real" where
  "pos_score_floor position ntotal =
     (if ntotal \<le> 1 then 1
      else max 0.1 (1 - (real_of_int position / real_of_int (ntotal - 1)) * 0.9))"

text \<open>\<open>_compute_relevance\<close> of dailydev.py: 50\% position, 50\% engagement.\<close>

definition dailydev_compute_relevance :: "int \<Rightarrow> int \<Rightarrow> pydict \<Rightarrow> exn + real" where
  "dailydev_compute_relevance position ntotal post =
     (let pos_score = pos_score_floor position ntotal;
          upvotes = py_or (dget post ''upvotes'' (JInt 0)) (JInt 0);
          comments = py_or (dget post ''comments'' (JInt 0)) (JInt 0)
      in ebind (py_min20 (py_or (dget post ''readTime'' (JInt 0)) (JInt 0))) (\<lambda>read_time.
         ebind (log1p upvotes) (\<lambda>log_upvotes.
         ebind (log1p comments) (\<lambda>log_comments.
         ebind (py_number read_time) (\<lambda>rt.
           (let eng_score = 0.55 * log_upvotes + 0.40 * log_comments + 0.05 * (rt / 20);
                eng_normalized = min 1 (eng_score / 7)
            in Inr (0.5 * pos_score + 0.5 * eng_normalized)))))))"

record dd_item =
  dd_id :: string
  dd_title :: string
  dd_url :: string
  dd_source_name :: json
  dd_author_name :: json
  dd_author_username :: json
  dd_date :: json
  dd_summary :: json
  dd_tags :: json
  dd_read_time :: json
  dd_engagement :: "pydict option"
  dd_why_relevant :: string
  dd_relevance :: real

text \<open>\<^verbatim>\<open>v.strip()\<close> and \<^verbatim>\<open>v.get(k, default)\<close> on a value that may lack the method.\<close>

definition py_strip :: "json \<Rightarrow> exn + string" where
  "py_strip v = (case v of JStr s \<Rightarrow> Inr (strip s) | _ \<Rightarrow> Inl AttributeError)"

definition attr_get :: "json \<Rightarrow> string \<Rightarrow> json \<Rightarrow> exn + json" where
  "attr_get v k dflt = (case v of JDict d \<Rightarrow> Inr (dget d k dflt) | _ \<Rightarrow> Inl AttributeError)"

text \<open>
  The date of an article or a video: \<^verbatim>\<open>None\<close>, or \<^verbatim>\<open>created_at[:10]\<close> when the value is truthy
  and \<^verbatim>\<open>len(created_at) >= 10\<close>. A number has no length; slicing a dictionary raises
  (a \<^verbatim>\<open>TypeError\<close> before Python 3.12, a \<^verbatim>\<open>KeyError\<close> since).
\<close>

definition iso_date_prefix :: "json \<Rightarrow> exn + json" where
  "iso_date_prefix created_at =
     (if \<not> truthy created_at then Inr JNull
      else ebind (py_len created_at) (\<lambda>n.
             if 10 \<le> n
             then (case created_at of
                     JStr s \<Rightarrow> Inr (JStr (take 10 s))
                   | JList xs \<Rightarrow> Inr (JList (take 10 xs))
                   | _ \<Rightarrow> Inl TypeError)
             else Inr JNull))"

text \<open>The body of the loop of \<open>parse_dailydev_response\<close> for the post at index \<open>i\<close>.\<close>

definition dd_parse_post :: "nat \<Rightarrow> nat \<Rightarrow> json \<Rightarrow> exn + dd_item option" where
  "dd_parse_post ntotal i p =
     (case p of
        JDict post \<Rightarrow>
          ebind (py_strip (dget post ''title'' (JStr []))) (\<lambda>title.
          ebind (py_strip (dget post ''url'' (JStr []))) (\<lambda>url.
            if title = [] \<or> url = [] then Inr None
            else
              ebind (iso_date_prefix (dget post ''createdAt'' (JStr []))) (\<lambda>date_str.
              (let author = py_or (dget post ''author'' (JDict [])) (JDict []) in
               ebind (attr_get author ''name'' (JStr [])) (\<lambda>author_name.
               ebind (attr_get author ''username'' (JStr [])) (\<lambda>author_username.
               (let source = py_or (dget post ''source'' (JDict [])) (JDict []) in
                ebind (attr_get source ''name'' (JStr [])) (\<lambda>source_name.
                (let upvotes = dget_none post ''upvotes'';
                     comments = dget_none post ''comments'';
                     engagement = (if upvotes \<noteq> JNull \<or> comments \<noteq> JNull
                                   then [(''score'', upvotes), (''num_comments'', comments)]
                                   else []);
                     tags = py_or (dget post ''tags'' (JList [])) (JList []);
                     read_time = dget_none post ''readTime''
                 in ebind (dailydev_compute_relevance (int i) (int ntotal) post) (\<lambda>relevance.
                      Inr (Some
                        \<lparr> dd_id = ''DD'' @ str_nat (i + 1),
                          dd_title = title,
                          dd_url = url,
                          dd_source_name = source_name,
                          dd_author_name = author_name,
                          dd_author_username = author_username,
                          dd_date = date_str,
                          dd_summary = dget post ''summary'' (JStr []),
                          dd_tags = tags,
                          dd_read_time = read_time,
                          dd_engagement = (if engagement \<noteq> [] then Some engagement else None),
                          dd_why_relevant = [],
                          dd_relevance = relevance \<rparr>)))))))))))
      | _ \<Rightarrow> Inr None)"

definition parse_dailydev_response :: "pydict \<Rightarrow> exn + dd_item list" where
  "parse_dailydev_response response =
     (let posts = dget response ''posts'' (JList [])
      in if \<not> truthy posts then Inr []
         else ebind (py_len posts) (\<lambda>ntotal.
              ebind (py_iter posts) (\<lambda>ps.
                collect (\<lambda>(i, post). dd_parse_post ntotal i post) (enumerate 0 ps))))"

section \<open>The video adapter: tubelab\_yt.py\<close>

definition TUBELAB_SEARCH_URL :: string where
  "TUBELAB_SEARCH_URL = ''https://api.tubelab.net/search/outliers''"

definition TUBELAB_DEPTH_CONFIG :: "(string \<times> nat) list" where
  "TUBELAB_DEPTH_CONFIG = [(''quick'', 10), (''default'', 20), (''deep'', 50)]"

definition tubelab_limit :: "string \<Rightarrow> nat" where
  "tubelab_limit depth =
     (case map_of TUBELAB_DEPTH_CONFIG depth of
        Some c \<Rightarrow> c
      | None \<Rightarrow> the (map_of TUBELAB_DEPTH_CONFIG ''default''))"

definition search_youtube ::
  "pylib \<Rightarrow> transport \<Rightarrow> string \<Rightarrow> string \<Rightarrow> string \<Rightarrow> string \<Rightarrow> string \<Rightarrow> pydict option
     \<Rightarrow> exn + pydict" where
  "search_youtube L http api_key topic from_date to_date depth mock_response =
     (case mock_response of
        Some m \<Rightarrow> Inr m
      | None \<Rightarrow>
          (let limit = tubelab_limit depth;
               headers = [(''Api-Key'', api_key)];
               url = TUBELAB_SEARCH_URL @ ''?q='' @ url_quote L topic @ ''&limit=''
                       @ str_nat limit
           in http 0 \<lparr> req_url = url, req_params = [], req_headers = headers,
                        req_timeout = 30 \<rparr>))"

text \<open>\<open>_compute_relevance\<close> of tubelab\_yt.py: 40\% position, 60\% engagement.\<close>

definition tubelab_compute_relevance :: "int \<Rightarrow> int \<Rightarrow> pydict \<Rightarrow> exn + real" where
  "tubelab_compute_relevance position ntotal video =
     (let pos_score = pos_score_floor position ntotal;
          views = py_or (dget video ''views'' (JInt 0)) (JInt 0);
          likes = py_or (dget video ''likes'' (JInt 0)) (JInt 0);
          comments = py_or (dget video ''comments'' (JInt 0)) (JInt 0)
      in ebind (log1p views) (\<lambda>log_views.
         ebind (log1p likes) (\<lambda>log_likes.
         ebind (log1p comments) (\<lambda>log_comments.
           (let eng_score = 0.50 * log_views + 0.30 * log_likes + 0.20 * log_comments;
                eng_normalized = min 1 (eng_score / 14)
            in Inr (0.4 * pos_score + 0.6 * eng_normalized))))))"

record yt_item =
  yt_id :: string
  yt_title :: string
  yt_url :: string
  yt_channel_name :: json
  yt_channel_id :: json
  yt_date :: json
  yt_duration :: json
  yt_thumbnail :: json
  yt_engagement :: "pydict option"
  yt_why_relevant :: string
  yt_relevance :: real

text \<open>The body of the loop of \<open>parse_youtube_response\<close> for the video at index \<open>i\<close>.\<close>

definition yt_parse_video :: "pylib \<Rightarrow> nat \<Rightarrow> nat \<Rightarrow> json \<Rightarrow> exn + yt_item option" where
  "yt_parse_video L ntotal i v =
     (case v of
        JDict video \<Rightarrow>
          (let video_id = dget video ''id'' (JStr (''YT'' @ str_nat (i + 1))) in
           ebind (py_strip (dget video ''title'' (JStr []))) (\<lambda>title.
             if title = [] \<or> \<not> truthy video_id then Inr None
             else
               (let url = ''https://www.youtube.com/watch?v='' @ py_str L video_id in
                ebind (iso_date_prefix (dget video ''publishedAt'' (JStr []))) (\<lambda>date_str.
                (let views = dget_none video ''views'';
                     likes = dget_none video ''likes'';
                     comments = dget_none video ''comments'';
                     engagement = (if views \<noteq> JNull \<or> likes \<noteq> JNull \<or> comments \<noteq> JNull
                                   then [(''views'', views), (''likes'', likes),
                                         (''num_comments'', comments)]
                                   else [])
                 in ebind (tubelab_compute_relevance (int i) (int ntotal) video) (\<lambda>relevance.
                      Inr (Some
                        \<lparr> yt_id = ''YT'' @ str_nat (i + 1),
                          yt_title = title,
                          yt_url = url,
                          yt_channel_name = dget video ''channelName'' (JStr []),
                          yt_channel_id = dget video ''channelId'' (JStr []),
                          yt_date = date_str,
                          yt_duration = dget_none video ''duration'',
                          yt_thumbnail = dget video ''thumbnail'' (JStr []),
                          yt_engagement = (if engagement \<noteq> [] then Some engagement else None),
                          yt_why_relevant = [],
                          yt_relevance = relevance \<rparr>)))))))
      | _ \<Rightarrow> Inr None)"

definition parse_youtube_response :: "pylib \<Rightarrow> pydict \<Rightarrow> exn + yt_item list" where
  "parse_youtube_response L response =
     (let videos = dget response ''videos'' (JList [])
      in if \<not> truthy videos then Inr []
         else ebind (py_len videos) (\<lambda>ntotal.
              ebind (py_iter videos) (\<lambda>vs.
                collect (\<lambda>(i, video). yt_parse_video L ntotal i video) (enumerate 0 vs))))"

section \<open>The discussion adapter: openai\_reddit.py\<close>

text \<open>
  A Python call: the positional arguments and the keyword arguments. \<open>bind_args\<close> binds them
  to the parameters of a \<^verbatim>\<open>def\<close> (the required ones, then the ones with a default) and
  raises \<^verbatim>\<open>TypeError\<close> as Python does: too many positional arguments, a keyword that names
  no parameter or one already given by position, a required parameter left without a value.
\<close>

record pycall =
  pos_args :: "json list"
  kw_args :: "(string \<times> json) list"

definition bind_args :: "string list \<Rightarrow> (string \<times> json) list \<Rightarrow> pycall \<Rightarrow> exn + pydict" where
  "bind_args required optional call =
     (let names = required @ map fst optional;
          positional = zip names (pos_args call)
      in if length names < length (pos_args call) then Inl TypeError
         else if list_ex (\<lambda>k. k \<in> set (map fst positional) \<or> k \<notin> set names)
                   (map fst (kw_args call)) then Inl TypeError
         else if list_ex (\<lambda>r. r \<notin> set (map fst (positional @ kw_args call))) required
              then Inl TypeError
         else Inr (positional @ kw_args call @ optional))"

definition OPENAI_RESPONSES_URL :: string where
  "OPENAI_RESPONSES_URL = ''https://api.openai.com/v1/responses''"

definition REDDIT_SEARCH_PROMPT :: "string \<Rightarrow> string" where
  \<open>REDDIT_SEARCH_PROMPT topic =
     ''Search Reddit for discussions about: '' @ topic @ [CHR 0x0A, CHR 0x0A]
     @ ''Focus on threads from the last 30 days. Find 15-30 high-quality, relevant threads.''
     @ [CHR 0x0A, CHR 0x0A]
     @ ''IMPORTANT: Return ONLY valid JSON in this exact format, no other text:'' @ [CHR 0x0A]
     @ ''{'' @ [CHR 0x0A]
     @ ''  "items": ['' @ [CHR 0x0A]
     @ ''    {'' @ [CHR 0x0A]
     @ ''      "title": "Thread title",'' @ [CHR 0x0A]
     @ ''      "url": "https://reddit.com/r/...",'' @ [CHR 0x0A]
     @ ''      "subreddit": "subreddit_name",'' @ [CHR 0x0A]
     @ ''      "date": "YYYY-MM-DD or null if unknown",'' @ [CHR 0x0A]
     @ ''      "why_relevant": "Brief explanation of relevance",'' @ [CHR 0x0A]
     @ ''      "relevance": 0.85'' @ [CHR 0x0A]
     @ ''    }'' @ [CHR 0x0A]
     @ ''  ]'' @ [CHR 0x0A]
     @ ''}'' @ [CHR 0x0A, CHR 0x0A]
     @ ''Rules:'' @ [CHR 0x0A]
     @ ''- relevance is 0.0 to 1.0 (1.0 = highly relevant)'' @ [CHR 0x0A]
     @ ''- date must be YYYY-MM-DD format or null'' @ [CHR 0x0A]
     @ ''- Include diverse subreddits if applicable'' @ [CHR 0x0A]
     @ ''- Prefer threads with substantive discussions'' @ [CHR 0x0A]
     @ ''- Do NOT include engagement metrics (upvotes, comments) - those will be fetched separately''\<close>

text \<open>
  \<open>search_reddit(api_key, model, topic, mock_response=None)\<close>, applied to a call. The
  payload of the request is kept as the request's parameters.
\<close>

definition search_reddit :: "pylib \<Rightarrow> transport \<Rightarrow> pycall \<Rightarrow> exn + json" where
  "search_reddit L http call =
     ebind (bind_args [''api_key'', ''model'', ''topic''] [(''mock_response'', JNull)] call)
       (\<lambda>args.
          (let mock_response = dget_none args ''mock_response'' in
           if mock_response \<noteq> JNull then Inr mock_response
           else (let headers = [(''Authorization'', ''Bearer '' @ py_str L (dget_none args ''api_key'')),
                                (''Content-Type'', ''application/json'')];
                     payload =
                       [(''model'', dget_none args ''model''),
                        (''tools'', JList [JDict [(''type'', JStr ''web_search''),
                           (''filters'', JDict [(''allowed_domains'', JList [JStr ''reddit.com''])])]]),
                        (''include'', JList [JStr ''web_search_call.action.sources'']),
                        (''input'', JStr (REDDIT_SEARCH_PROMPT (py_str L (dget_none args ''topic''))))]
                 in case http 0 \<lparr> req_url = OPENAI_RESPONSES_URL, req_params = payload,
                                    req_headers = headers, req_timeout = 60 \<rparr> of
                      Inl e \<Rightarrow> Inl e
                    | Inr response \<Rightarrow> Inr (JDict response))))"

text \<open>
  The output text of a response. \<open>scan_content\<close> is the inner loop over the content of a
  message: the text of the first \<^verbatim>\<open>output_text\<close> part. \<open>scan_output\<close> is the loop over
  \<^verbatim>\<open>response["output"]\<close>: it carries the current \<open>output_text\<close> and stops at the first item
  that leaves it truthy.
\<close>

fun scan_content :: "json list \<Rightarrow> json option" where
  "scan_content [] = None"
| "scan_content (c # cs) =
     (case c of
        JDict cd \<Rightarrow> if dget_none cd ''type'' = JStr ''output_text''
                    then Some (dget cd ''text'' (JStr []))
                    else scan_content cs
      | _ \<Rightarrow> scan_content cs)"

fun scan_output :: "json \<Rightarrow> json list \<Rightarrow> exn + json" where
  "scan_output output_text [] = Inr output_text"
| "scan_output output_text (item # rest) =
     (case (case item of
              JDict d \<Rightarrow>
                if dget_none d ''type'' = JStr ''message''
                then ebind (py_iter (dget d ''content'' (JList []))) (\<lambda>content.
                       Inr (case scan_content content of None \<Rightarrow> output_text | Some t \<Rightarrow> t))
                else (case map_of d ''text'' of Some t \<Rightarrow> Inr t | None \<Rightarrow> Inr output_text)
            | JStr s \<Rightarrow> Inr (JStr s)
            | _ \<Rightarrow> Inr output_text) of
        Inl e \<Rightarrow> Inl e
      | Inr output_text' \<Rightarrow>
          if truthy output_text' then Inr output_text' else scan_output output_text' rest)"

text \<open>The loop over \<^verbatim>\<open>response["choices"]\<close> (the older format): the content of the message of
  the first choice that has one; \<open>None\<close> when no choice has.\<close>

fun scan_choices :: "json list \<Rightarrow> exn + json option" where
  "scan_choices [] = Inr None"
| "scan_choices (choice # rest) =
     ebind (py_in ''message'' choice) (\<lambda>has_message.
       if has_message
       then (case choice of
               JDict c \<Rightarrow> ebind (attr_get (dget_none c ''message'') ''content'' (JStr []))
                            (\<lambda>content. Inr (Some content))
             | _ \<Rightarrow> Inl TypeError)
       else scan_choices rest)"

definition find_output_text :: "pydict \<Rightarrow> exn + json" where
  "find_output_text response =
     ebind (case map_of response ''output'' of
              None \<Rightarrow> Inr (JStr [])
            | Some (JStr s) \<Rightarrow> Inr (JStr s)
            | Some (JList items) \<Rightarrow> scan_output (JStr []) items
            | Some _ \<Rightarrow> Inr (JStr []))
       (\<lambda>output_text.
          if \<not> truthy output_text \<and> map_of response ''choices'' \<noteq> None
          then ebind (py_iter (dget_none response ''choices'')) (\<lambda>choices.
               ebind (scan_choices choices) (\<lambda>found.
                 Inr (case found of None \<Rightarrow> output_text | Some t \<Rightarrow> t)))
          else Inr output_text)"

text \<open>
  \<^verbatim>\<open>re.search(r'\{[\s\S]*"items"[\s\S]*\}', text)\<close>: both stars are greedy and match any
  character, so the match, when there is one, runs from the first opening brace to the last
  closing brace of the text, and there is one exactly when \<^verbatim>\<open>"items"\<close> occurs between them.
\<close>

definition quoted_items :: string where
  "quoted_items = CHR 0x22 # ''items'' @ [CHR 0x22]"

definition re_search_items :: "string \<Rightarrow> string option" where
  "re_search_items text =
     (case dropWhile (\<lambda>c. c \<noteq> CHR ''{'') text of
        [] \<Rightarrow> None
      | brace # after \<Rightarrow>
          (let upto = rev (dropWhile (\<lambda>c. c \<noteq> CHR ''}'') (rev after))
           in if upto \<noteq> [] \<and> contains quoted_items (butlast upto)
              then Some (brace # upto) else None))"

text \<open>The value of \<open>items\<close> before the cleaning loop of \<open>parse_reddit_response\<close>.\<close>

definition extract_items :: "pylib \<Rightarrow> pydict \<Rightarrow> exn + json" where
  "extract_items L response =
     ebind (find_output_text response) (\<lambda>output_text.
       if \<not> truthy output_text then Inr (JList [])
       else (case output_text of
               JStr text \<Rightarrow>
                 (case re_search_items text of
                    None \<Rightarrow> Inr (JList [])
                  | Some m \<Rightarrow>
                      (case json_loads L m of
                         None \<Rightarrow> Inr (JList [])
                       | Some data \<Rightarrow> attr_get data ''items'' (JList [])))
             | _ \<Rightarrow> Inl TypeError))"

text \<open>\<^verbatim>\<open>re.match(r'^\d{4}-\d{2}-\d{2}$', s)\<close>: \<^verbatim>\<open>$\<close> also matches before a final newline.\<close>

definition re_match_date :: "string \<Rightarrow> bool" where
  "re_match_date s =
     (date_shape s \<or> (s \<noteq> [] \<and> last s = CHR 0x0A \<and> date_shape (butlast s)))"

record reddit_item =
  r_id :: string
  r_title :: string
  r_url :: json
  r_subreddit :: string
  r_date :: json
  r_why_relevant :: string
  r_relevance :: real

text \<open>The body of the loop "Validate and clean items" for the entry at index \<open>i\<close>.\<close>

definition reddit_clean_item :: "pylib \<Rightarrow> nat \<Rightarrow> json \<Rightarrow> exn + reddit_item option" where
  "reddit_clean_item L i entry =
     (case entry of
        JDict item \<Rightarrow>
          (let url = dget item ''url'' (JStr []) in
           if \<not> truthy url then Inr None
           else ebind (py_in ''reddit.com'' url) (\<lambda>has_domain.
                  if \<not> has_domain then Inr None
                  else ebind (py_float L (dget item ''relevance'' (JFloat 0.5))) (\<lambda>relevance.
                    (let date = dget_none item ''date'' in
                     Inr (Some
                       \<lparr> r_id = ''R'' @ str_nat (i + 1),
                         r_title = strip (py_str L (dget item ''title'' (JStr []))),
                         r_url = url,
                         r_subreddit = lstrip_chars {CHR ''r'', CHR ''/''}
                                         (strip (py_str L (dget item ''subreddit'' (JStr [])))),
                         r_date = (if truthy date \<and> \<not> re_match_date (py_str L date)
                                   then JNull else date),
                         r_why_relevant = strip (py_str L (dget item ''why_relevant'' (JStr []))),
                         r_relevance = min 1 (max 0 relevance) \<rparr>)))))
      | _ \<Rightarrow> Inr None)"

definition clean_items :: "pylib \<Rightarrow> json \<Rightarrow> exn + reddit_item list" where
  "clean_items L items =
     ebind (py_iter items) (\<lambda>entries.
       collect (\<lambda>(i, entry). reddit_clean_item L i entry) (enumerate 0 entries))"

definition parse_reddit_response :: "pylib \<Rightarrow> pydict \<Rightarrow> exn + reddit_item list" where
  "parse_reddit_response L response = ebind (extract_items L response) (clean_items L)"

section \<open>The discussion search task: \_search\_reddit of last30days.py\<close>

text \<open>
  \<open>_search_reddit\<close> calls \<^verbatim>\<open>openai_reddit.search_reddit\<close> with five positional arguments and
  the keyword \<open>depth\<close>; the model applies \<open>search_reddit\<close> of openai\_reddit.py to this call.
  The fixture loader reads a file: its result is the parameter \<open>fixture\<close>. The result of the
  task carries the list of the calls to \<open>search_reddit\<close> that were made.
\<close>

definition reddit_call :: "json \<Rightarrow> json \<Rightarrow> string \<Rightarrow> string \<Rightarrow> string \<Rightarrow> string \<Rightarrow> pycall" where
  "reddit_call api_key model topic from_date to_date depth =
     \<lparr> pos_args = [api_key, model, JStr topic, JStr from_date, JStr to_date],
       kw_args = [(''depth'', JStr depth)] \<rparr>"

fun exn_name :: "exn \<Rightarrow> string" where
  "exn_name TypeError = ''TypeError''"
| "exn_name ValueError = ''ValueError''"
| "exn_name AttributeError = ''AttributeError''"
| "exn_name KeyError = ''KeyError''"
| "exn_name (HTTPError m) = ''HTTPError''"
| "exn_name (OtherError n) = n"

definition error_text :: "pylib \<Rightarrow> exn \<Rightarrow> string" where
  "error_text L e =
     (if is_HTTPError e then ''API error: '' @ exc_str L e
      else exn_name e @ '': '' @ exc_str L e)"

text \<open>The first query, inside its \<^verbatim>\<open>try\<close>: the raw response and the error string.\<close>

definition first_query ::
  "pylib \<Rightarrow> transport \<Rightarrow> string \<Rightarrow> pydict \<Rightarrow> pydict \<Rightarrow> string \<Rightarrow> string \<Rightarrow> string
     \<Rightarrow> (json \<times> string option) \<times> pycall list" where
  "first_query L http topic config selected_models from_date to_date depth =
     (case map_of config ''OPENAI_API_KEY'' of
        None \<Rightarrow> ((JDict [(''error'', JStr (exc_str L KeyError))], Some (error_text L KeyError)),
                 [])
      | Some api_key \<Rightarrow>
          (case map_of selected_models ''openai'' of
             None \<Rightarrow> ((JDict [(''error'', JStr (exc_str L KeyError))],
                       Some (error_text L KeyError)), [])
           | Some model \<Rightarrow>
               (let call = reddit_call api_key model topic from_date to_date depth in
                case search_reddit L http call of
                  Inl e \<Rightarrow> ((JDict [(''error'', JStr (exc_str L e))], Some (error_text L e)),
                            [call])
                | Inr raw \<Rightarrow> ((raw, None), [call]))))"

text \<open>
  \<open>parse_reddit_response\<close> applied to a value that need not be a dictionary: on a string or a
  list the tests \<^verbatim>\<open>"output" in response\<close> and \<^verbatim>\<open>"choices" in response\<close> work, the subscript
  that follows a successful test raises, and with both tests negative the result is empty.
\<close>

definition parse_reddit_value :: "pylib \<Rightarrow> json \<Rightarrow> exn + reddit_item list" where
  "parse_reddit_value L response =
     (case response of
        JDict d \<Rightarrow> parse_reddit_response L d
      | _ \<Rightarrow> ebind (py_in ''output'' response) (\<lambda>has_output.
               if has_output then Inl TypeError
               else ebind (py_in ''choices'' response) (\<lambda>has_choices.
                      if has_choices then Inl TypeError else Inr [])))"

fun hashable :: "json \<Rightarrow> bool" where
  "hashable (JList xs) = False"
| "hashable (JDict d) = False"
| "hashable _ = True"

text \<open>
  The loop that appends the retry's items whose URL is not among \<open>existing_urls\<close>. The test
  \<^verbatim>\<open>url not in existing_urls\<close> hashes the URL: on a list or a dictionary it raises, the
  enclosing \<^verbatim>\<open>except Exception: pass\<close> ends the loop, and the items appended so far stay.
\<close>

fun append_new :: "json list \<Rightarrow> reddit_item list \<Rightarrow> reddit_item list \<Rightarrow> reddit_item list" where
  "append_new existing_urls reddit_items [] = reddit_items"
| "append_new existing_urls reddit_items (item # rest) =
     (if \<not> hashable (r_url item) then reddit_items
      else if r_url item \<notin> set existing_urls
           then append_new existing_urls (reddit_items @ [item]) rest
           else append_new existing_urls reddit_items rest)"

text \<open>The retry (lines 101 to 116), inside its \<^verbatim>\<open>try ... except Exception: pass\<close>: the items
  after it and the calls it made. It is the second use of the transport.\<close>

definition retry_query ::
  "pylib \<Rightarrow> transport \<Rightarrow> string \<Rightarrow> pydict \<Rightarrow> pydict \<Rightarrow> string \<Rightarrow> string \<Rightarrow> string
     \<Rightarrow> reddit_item list \<Rightarrow> reddit_item list \<times> pycall list" where
  "retry_query L http core config selected_models from_date to_date depth reddit_items =
     (case map_of config ''OPENAI_API_KEY'' of
        None \<Rightarrow> (reddit_items, [])
      | Some api_key \<Rightarrow>
          (case map_of selected_models ''openai'' of
             None \<Rightarrow> (reddit_items, [])
           | Some model \<Rightarrow>
               (let call = reddit_call api_key model core from_date to_date depth in
                case search_reddit L (\<lambda>n. http (n + 1)) call of
                  Inl e \<Rightarrow> (reddit_items, [call])
                | Inr retry_raw \<Rightarrow>
                    (case parse_reddit_value L retry_raw of
                       Inl e \<Rightarrow> (reddit_items, [call])
                     | Inr retry_items \<Rightarrow>
                         if list_all (\<lambda>item. hashable (r_url item)) reddit_items
                         then (append_new (map r_url reddit_items) reddit_items retry_items, [call])
                         else (reddit_items, [call])))))"

text \<open>
  Line 99 reads \<^verbatim>\<open>openai_reddit._extract_core_subject\<close>. openai\_reddit.py defines
  \<open>search_reddit\<close> and \<open>parse_reddit_response\<close> only, so the attribute lookup raises
  \<^verbatim>\<open>AttributeError\<close>; the line is outside every \<^verbatim>\<open>try\<close> of \<open>_search_reddit\<close>.
\<close>

definition extract_core_subject :: "exn + (string \<Rightarrow> string)" where
  "extract_core_subject = Inl AttributeError"

text \<open>\<^verbatim>\<open>not reddit_error\<close> on \<^verbatim>\<open>None\<close> or an error string.\<close>

definition no_error :: "string option \<Rightarrow> bool" where
  "no_error reddit_error = (case reddit_error of None \<Rightarrow> True | Some msg \<Rightarrow> msg = [])"

text \<open>\<open>_search_reddit\<close> from line 94 on: the parse of the raw response and the retry.\<close>

definition after_first_query ::
  "pylib \<Rightarrow> transport \<Rightarrow> string \<Rightarrow> pydict \<Rightarrow> pydict \<Rightarrow> string \<Rightarrow> string \<Rightarrow> string
     \<Rightarrow> json \<Rightarrow> string option \<Rightarrow> pycall list \<Rightarrow> bool
     \<Rightarrow> (exn + (reddit_item list \<times> json \<times> string option)) \<times> pycall list" where
  "after_first_query L http topic config selected_models from_date to_date depth
       raw_openai reddit_error calls mock =
     (case parse_reddit_value L (py_or raw_openai (JDict [])) of
        Inl e \<Rightarrow> (Inl e, calls)
      | Inr reddit_items \<Rightarrow>
          if length reddit_items < 5 \<and> \<not> mock \<and> no_error reddit_error
          then (case extract_core_subject of
                  Inl e \<Rightarrow> (Inl e, calls)
                | Inr extract \<Rightarrow>
                    (let core = extract topic in
                     if lower core \<noteq> lower topic
                     then (let (items', retry_calls) =
                                 retry_query L http core config selected_models
                                   from_date to_date depth reddit_items
                           in (Inr (items', raw_openai, reddit_error), calls @ retry_calls))
                     else (Inr (reddit_items, raw_openai, reddit_error), calls)))
          else (Inr (reddit_items, raw_openai, reddit_error), calls))"

definition orch_search_reddit ::
  "pylib \<Rightarrow> transport \<Rightarrow> pydict \<Rightarrow> string \<Rightarrow> pydict \<Rightarrow> pydict \<Rightarrow> string \<Rightarrow> string \<Rightarrow> string
     \<Rightarrow> bool \<Rightarrow> (exn + (reddit_item list \<times> json \<times> string option)) \<times> pycall list" where
  "orch_search_reddit L http fixture topic config selected_models from_date to_date depth mock =
     (let ((raw_openai, reddit_error), calls) =
            (if mock then ((JDict fixture, None), [])
             else first_query L http topic config selected_models from_date to_date depth)
      in after_first_query L http topic config selected_models from_date to_date depth
           raw_openai reddit_error calls mock)"

section \<open>Predicates used by the properties\<close>

text \<open>The entries that the cleaning loop of \<open>parse_reddit_response\<close> keeps: dictionaries whose
  \<open>url\<close> is truthy and passes \<^verbatim>\<open>"reddit.com" in url\<close>.\<close>

definition reddit_keeps :: "json \<Rightarrow> bool" where
  "reddit_keeps entry =
     (case entry of
        JDict item \<Rightarrow> truthy (dget item ''url'' (JStr []))
                       \<and> py_in ''reddit.com'' (dget item ''url'' (JStr [])) = Inr True
      | _ \<Rightarrow> False)"

text \<open>A raw engagement counter that is null (or absent) or a non-negative integer, and a
  response in which these fields of every dictionary of the list under \<open>key\<close> are such.\<close>

fun counter_ok :: "json \<Rightarrow> bool" where
  "counter_ok JNull = True"
| "counter_ok (JInt n) = (0 \<le> n)"
| "counter_ok _ = False"

definition counters_clean :: "string \<Rightarrow> string list \<Rightarrow> pydict \<Rightarrow> bool" where
  "counters_clean key names response =
     (case py_iter (dget response key (JList [])) of
        Inl e \<Rightarrow> True
      | Inr entries \<Rightarrow>
          list_all (\<lambda>entry. case entry of
                              JDict d \<Rightarrow> list_all (\<lambda>k. counter_ok (dget_none d k)) names
                            | _ \<Rightarrow> True) entries)"

text \<open>
  A page of the social search that lets the loop go on: the request with the current cursor
  succeeds, the response has the tweets \<open>ts\<close>, a truthy \<open>has_next_page\<close> and the truthy
  cursor \<open>cursor'\<close> for the next page.
\<close>

definition page_continues ::
  "transport \<Rightarrow> string \<Rightarrow> string \<Rightarrow> nat \<Rightarrow> json \<Rightarrow> json list \<Rightarrow> json \<Rightarrow> bool" where
  "page_continues http api_key query page cursor ts cursor' =
     (case http page (x_request api_key query cursor) of
        Inl e \<Rightarrow> False
      | Inr response \<Rightarrow>
          truthy (dget response ''tweets'' (JList []))
          \<and> py_iter (dget response ''tweets'' (JList [])) = Inr ts
          \<and> truthy (dget_none response ''has_next_page'')
          \<and> dget_none response ''next_cursor'' = cursor' \<and> truthy cursor')"

section \<open>Sample inputs\<close>

text \<open>A transport that always fails, and one that serves a first page and then fails.\<close>

definition failing_http :: transport where
  "failing_http page req = Inl (HTTPError ''503'')"

definition one_page_http :: transport where
  "one_page_http page req =
     (if page = 0
      then Inr [(''tweets'', JList [JDict [(''id'', JStr ''1'')]]),
                (''has_next_page'', JBool True), (''next_cursor'', JStr ''c1'')]
      else Inl (HTTPError ''503''))"

text \<open>A transport that serves two pages, the second one only for the cursor of the first,
  and fails on the third.\<close>

definition two_page_http :: transport where
  "two_page_http page req =
     (if page = 0
      then Inr [(''tweets'', JList [JDict [(''id'', JStr ''1'')]]),
                (''has_next_page'', JBool True), (''next_cursor'', JStr ''c1'')]
      else if page = 1
      then (if map_of (req_params req) ''cursor'' = Some (JStr ''c1'')
            then Inr [(''tweets'', JList [JDict [(''id'', JStr ''2'')], JDict [(''id'', JStr ''3'')]]),
                      (''has_next_page'', JBool True), (''next_cursor'', JStr ''c2'')]
            else Inr [(''tweets'', JList [])])
      else Inl (HTTPError ''503''))"

text \<open>An article response with one post whose read time is negative.\<close>

definition negative_read_time_response :: pydict where
  "negative_read_time_response =
     [(''posts'', JList [JDict [(''title'', JStr ''T''), (''url'', JStr ''https://example.com/a''),
                                (''readTime'', JInt (- 4000))]])]"

text \<open>A library whose \<open>json_loads\<close> knows one text, and a response of the Responses API
  that carries this text: two items, the second one not on reddit.com.\<close>

definition sample_text :: string where
  \<open>sample_text =
     ''{"items": [{"title": "X", "url": "https://www.reddit.com/r/a/comments/1"}, ''
     @ ''{"title": "Y", "url": "https://example.com/b"}]}''\<close>

definition sample_entry_a :: pydict where
  "sample_entry_a = [(''title'', JStr ''X''), (''url'', JStr ''https://www.reddit.com/r/a/comments/1'')]"

definition sample_entry_b :: pydict where
  "sample_entry_b = [(''title'', JStr ''Y''), (''url'', JStr ''https://example.com/b'')]"

definition dated_text :: string where
  \<open>dated_text =
     ''{"items": [{"url": "https://reddit.com/r/a/1", "date": "2026-01-15"}, ''
     @ ''{"url": "https://reddit.com/r/b/2", "date": "yesterday"}]}''\<close>

definition dated_entry_a :: pydict where
  "dated_entry_a = [(''url'', JStr ''https://reddit.com/r/a/1''), (''date'', JStr ''2026-01-15'')]"

definition dated_entry_b :: pydict where
  "dated_entry_b = [(''url'', JStr ''https://reddit.com/r/b/2''), (''date'', JStr ''yesterday'')]"

text \<open>The two items again, the first with a null relevance; an item whose \<open>url\<close> is a
  number; and a payload of entries of every kind that the cleaning loop skips, followed by
  the item on reddit.com.\<close>

definition null_relevance_text :: string where
  \<open>null_relevance_text =
     ''{"items": [{"title": "X", "url": "https://www.reddit.com/r/a/comments/1", ''
     @ ''"relevance": null}, {"title": "Y", "url": "https://example.com/b"}]}''\<close>

definition null_relevance_entry_a :: pydict where
  "null_relevance_entry_a =
     [(''title'', JStr ''X''), (''url'', JStr ''https://www.reddit.com/r/a/comments/1''),
      (''relevance'', JNull)]"

definition number_url_text :: string where
  \<open>number_url_text = ''{"items": [{"title": "Z", "url": 5}]}''\<close>

definition number_url_entry :: pydict where
  "number_url_entry = [(''title'', JStr ''Z''), (''url'', JInt 5)]"

definition mixed_text :: string where
  \<open>mixed_text =
     ''{"items": ["junk", 7, {"title": "T"}, {"url": ""}, {"url": null}, ''
     @ ''{"title": "Y", "url": "https://example.com/b"}, ''
     @ ''{"title": "X", "url": "https://www.reddit.com/r/a/comments/1"}]}''\<close>

definition mixed_entries :: "json list" where
  "mixed_entries =
     [JStr ''junk'', JInt 7, JDict [(''title'', JStr ''T'')], JDict [(''url'', JStr [])],
      JDict [(''url'', JNull)], JDict sample_entry_b, JDict sample_entry_a]"

definition sample_lib :: pylib where
  "sample_lib =
     \<lparr> repr_of = (\<lambda>v. []),
       float_of_str = (\<lambda>s. None),
       int_of_str = (\<lambda>s. None),
       json_loads = (\<lambda>s. if s = sample_text
                          then Some (JDict [(''items'', JList [JDict sample_entry_a,
                                                              JDict sample_entry_b])])
                          else if s = dated_text
                          then Some (JDict [(''items'', JList [JDict dated_entry_a,
                                                              JDict dated_entry_b])])
                          else if s = null_relevance_text
                          then Some (JDict [(''items'', JList [JDict null_relevance_entry_a,
                                                              JDict sample_entry_b])])
                          else if s = number_url_text
                          then Some (JDict [(''items'', JList [JDict number_url_entry])])
                          else if s = mixed_text
                          then Some (JDict [(''items'', JList mixed_entries)])
                          else None),
       strptime_twitter = (\<lambda>s. if s = ''Wed Jan 15 14:30:00 +0000 2026''
                                then Some ''2026-01-15'' else None),
       url_quote = (\<lambda>s. s),
       exc_str = (\<lambda>e. []) \<rparr>"

definition dated_reddit_response :: pydict where
  "dated_reddit_response = [(''output'', JStr dated_text)]"

definition null_relevance_response :: pydict where
  "null_relevance_response = [(''output'', JStr null_relevance_text)]"

definition number_url_response :: pydict where
  "number_url_response = [(''output'', JStr number_url_text)]"

definition mixed_reddit_response :: pydict where
  "mixed_reddit_response = [(''output'', JStr mixed_text)]"

text \<open>Responses of the other three adapters with well-formed and malformed dates.\<close>

definition sample_x_response :: pydict where
  "sample_x_response =
     [(''tweets'', JList
        [JDict [(''url'', JStr ''https://x.com/a/status/1''),
                (''createdAt'', JStr ''2026-01-15T14:30:00Z'')],
         JDict [(''url'', JStr ''https://x.com/a/status/2''),
                (''createdAt'', JStr ''Wed Jan 15 14:30:00 +0000 2026'')],
         JDict [(''url'', JStr ''https://x.com/a/status/3''), (''createdAt'', JStr ''soon'')]])]"

definition malformed_date_response :: pydict where
  "malformed_date_response =
     [(''posts'', JList [JDict [(''title'', JStr ''T''), (''url'', JStr ''https://example.com/a''),
                                (''createdAt'', JStr ''not a date at all'')]])]"

definition numeric_date_response :: pydict where
  "numeric_date_response =
     [(''posts'', JList [JDict [(''title'', JStr ''T''), (''url'', JStr ''https://example.com/a''),
                                (''createdAt'', JInt 1700000000)]])]"

definition sample_youtube_response :: pydict where
  "sample_youtube_response =
     [(''videos'', JList [JDict [(''id'', JStr ''abc''), (''title'', JStr ''V''),
                                 (''publishedAt'', JStr ''2026-01-22T10:00:00Z'')]])]"

definition malformed_video_response :: pydict where
  "malformed_video_response =
     [(''videos'', JList [JDict [(''id'', JStr ''abc''), (''title'', JStr ''V''),
                                 (''publishedAt'', JStr ''last Tuesday'')]])]"

definition sample_reddit_response :: pydict where
  "sample_reddit_response =
     [(''output'', JList [JDict [(''type'', JStr ''message''),
        (''content'', JList [JDict [(''type'', JStr ''output_text''),
                                    (''text'', JStr sample_text)]])]])]"

text \<open>A social response with a negative like count, and responses with plain counters.\<close>

definition negative_likes_response :: pydict where
  "negative_likes_response =
     [(''tweets'', JList [JDict [(''url'', JStr ''https://x.com/a/status/1''),
                                 (''likeCount'', JInt (- 5))]])]"

definition counted_x_response :: pydict where
  "counted_x_response =
     [(''tweets'', JList [JDict [(''url'', JStr ''https://x.com/a/status/1''),
                                 (''likeCount'', JInt 7), (''retweetCount'', JNull)]])]"

definition counted_dailydev_response :: pydict where
  "counted_dailydev_response =
     [(''posts'', JList [JDict [(''title'', JStr ''T''), (''url'', JStr ''https://example.com/a''),
                                (''upvotes'', JInt 3)]])]"

definition counted_youtube_response :: pydict where
  "counted_youtube_response =
     [(''videos'', JList [JDict [(''id'', JStr ''abc''), (''title'', JStr ''V''),
                                 (''views'', JInt 10)]])]"

section \<open>The query builder and the depth tiers\<close>

lemma str_nat_digit: "n < 10 \<Longrightarrow> str_nat n = [digit_char n]"
  by (simp add: str_nat.simps)

text \<open>
  C3. \<open>build_query\<close> returns the topic, the window bounds, the language filter, the retweet
  exclusion and the minimum-likes floor of the depth, in that order: the floor is 5 for
  quick, 3 for default and 2 for deep. For the topic "Claude Code" and January 2026 at the
  default depth it is the string of the specification.
\<close>

theorem build_query_exact:
  "build_query topic from_date to_date ''quick''
     = topic @ '' since:'' @ from_date @ '' until:'' @ to_date
         @ '' lang:en -filter:retweets min_faves:5''
   \<and> build_query topic from_date to_date ''default''
     = topic @ '' since:'' @ from_date @ '' until:'' @ to_date
         @ '' lang:en -filter:retweets min_faves:3''
   \<and> build_query topic from_date to_date ''deep''
     = topic @ '' since:'' @ from_date @ '' until:'' @ to_date
         @ '' lang:en -filter:retweets min_faves:2''
   \<and> build_query ''Claude Code'' ''2026-01-01'' ''2026-01-31'' ''default''
     = ''Claude Code since:2026-01-01 until:2026-01-31 lang:en -filter:retweets min_faves:3''"
  by (simp add: build_query_def x_depth_config_def X_DEPTH_CONFIG_def str_nat_digit
      digit_char_def)

lemma ebind_Inl [simp]: "ebind (Inl e) f = Inl e"
  by (simp add: ebind_def)

lemma ebind_Inr [simp]: "ebind (Inr x) f = f x"
  by (simp add: ebind_def)

lemma ebind_eq_Inr: "ebind m f = Inr y \<longleftrightarrow> (\<exists>x. m = Inr x \<and> f x = Inr y)"
  by (cases m) simp_all

lemma x_depth_config_default: "x_depth_config ''default'' = (3, 2)"
  by (simp add: x_depth_config_def X_DEPTH_CONFIG_def)

lemma x_depth_config_other:
  "depth \<notin> {''quick'', ''default'', ''deep''} \<Longrightarrow> x_depth_config depth = (3, 2)"
  by (simp add: x_depth_config_def X_DEPTH_CONFIG_def)

lemma str_nat_20: "str_nat 20 = ''20''"
  by (simp add: str_nat.simps [of 20] str_nat.simps [of 2] digit_char_def)

lemma dailydev_limit_other:
  "depth \<notin> {''quick'', ''default'', ''deep''} \<Longrightarrow> dailydev_limit depth = 20"
  by (simp add: dailydev_limit_def DAILYDEV_DEPTH_CONFIG_def)

lemma tubelab_limit_other:
  "depth \<notin> {''quick'', ''default'', ''deep''} \<Longrightarrow> tubelab_limit depth = 20"
  by (simp add: tubelab_limit_def TUBELAB_DEPTH_CONFIG_def)

text \<open>
  C10. A depth string other than "quick", "default" and "deep" behaves as "default": the
  query builder and the social search use a minimum of 3 likes and at most 2 pages, the
  article and the video search ask for 20 results.
\<close>

theorem unknown_depth_is_default:
  assumes "depth \<notin> {''quick'', ''default'', ''deep''}"
  shows "x_depth_config depth = (3, 2)
       \<and> build_query topic from_date to_date depth
           = build_query topic from_date to_date ''default''
       \<and> search_x http api_key topic from_date to_date depth mock
           = search_x http api_key topic from_date to_date ''default'' mock
       \<and> dailydev_limit depth = 20
       \<and> search_dailydev http api_key topic from_date to_date depth None
           = http 0 \<lparr> req_url = DAILYDEV_SEARCH_URL @ ''?q='' @ topic @ ''&time=month&limit=20'',
                      req_params = [], req_headers = [(''Authorization'', ''Bearer '' @ api_key)],
                      req_timeout = 30 \<rparr>
       \<and> search_dailydev http api_key topic from_date to_date depth mock
           = search_dailydev http api_key topic from_date to_date ''default'' mock
       \<and> tubelab_limit depth = 20
       \<and> search_youtube L http api_key topic from_date to_date depth None
           = http 0 \<lparr> req_url = TUBELAB_SEARCH_URL @ ''?q='' @ url_quote L topic @ ''&limit=20'',
                      req_params = [], req_headers = [(''Api-Key'', api_key)],
                      req_timeout = 30 \<rparr>
       \<and> search_youtube L http api_key topic from_date to_date depth mock
           = search_youtube L http api_key topic from_date to_date ''default'' mock"
proof -
  have x: "x_depth_config depth = x_depth_config ''default''"
    using assms by (simp add: x_depth_config_other x_depth_config_default)
  have d: "dailydev_limit depth = 20" "dailydev_limit ''default'' = 20"
    using assms by (simp_all add: dailydev_limit_def DAILYDEV_DEPTH_CONFIG_def)
  have t: "tubelab_limit depth = 20" "tubelab_limit ''default'' = 20"
    using assms by (simp_all add: tubelab_limit_def TUBELAB_DEPTH_CONFIG_def)
  have q: "build_query topic from_date to_date depth
             = build_query topic from_date to_date ''default''"
    by (simp add: build_query_def x)
  show ?thesis
    by (simp add: x x_depth_config_default q search_x_def d t search_dailydev_def
        search_youtube_def str_nat_20 split: option.split)
qed

theorem unknown_depth_is_default_witness:
  "''turbo'' \<notin> {''quick'', ''default'', ''deep''}
   \<and> x_depth_config ''turbo'' = (3, 2)
   \<and> build_query ''AI'' ''2026-01-01'' ''2026-01-31'' ''turbo''
       = ''AI since:2026-01-01 until:2026-01-31 lang:en -filter:retweets min_faves:3''
   \<and> dailydev_limit ''turbo'' = 20 \<and> tubelab_limit ''turbo'' = 20"
  using unknown_depth_is_default [of "''turbo''" "''AI''" "''2026-01-01''" "''2026-01-31''"]
  by (simp add: build_query_def x_depth_config_default str_nat_digit digit_char_def)

section \<open>Pagination of the social search\<close>

lemma x_max_pages_pos: "0 < snd (x_depth_config depth)"
  by (simp add: x_depth_config_def X_DEPTH_CONFIG_def)

text \<open>A failing later page ends the loop with what has been collected.\<close>

lemma x_fetch_pages_cut:
  assumes "\<And>req. http p req = Inl (HTTPError m)" and "p \<noteq> 0"
  shows "x_fetch_pages http api_key query (front @ p # back) cursor all_tweets
           = x_fetch_pages http api_key query front cursor all_tweets"
proof (induction front arbitrary: cursor all_tweets)
  case Nil
  show ?case using assms by simp
next
  case (Cons page front)
  show ?case
    by (simp add: Cons.IH Let_def split: sum.split)
qed

lemma py_iter_Inl: "py_iter v = Inl e \<Longrightarrow> e = TypeError"
  by (cases v) auto

text \<open>An \<open>HTTPError\<close> leaves the loop only from page 0.\<close>

lemma x_fetch_pages_no_http_error:
  assumes "0 \<notin> set pages"
    and "x_fetch_pages http api_key query pages cursor all_tweets = Inl e"
  shows "\<not> is_HTTPError e"
  using assms
proof (induction pages arbitrary: cursor all_tweets)
  case Nil
  then show ?case by simp
next
  case (Cons page pages)
  from Cons.prems(1) have p: "page \<noteq> 0" and rest: "0 \<notin> set pages" by auto
  show ?case
  proof (cases "http page (x_request api_key query cursor)")
    case (Inl e')
    with Cons.prems(2) p show ?thesis by (auto split: if_splits)
  next
    case (Inr response)
    with Cons.prems(2) Cons.IH [OF rest] show ?thesis
      by (auto simp: Let_def split: if_splits sum.splits dest: py_iter_Inl)
  qed
qed

lemma x_fetch_pages_http_error_first:
  assumes "x_fetch_pages http api_key query [0..<n] JNull [] = Inl e" and "is_HTTPError e"
  shows "http 0 (x_request api_key query JNull) = Inl e"
proof (cases n)
  case 0
  with assms show ?thesis by simp
next
  case (Suc k)
  have upt: "[0..<n] = 0 # [1..<n]"
    using Suc by (simp add: upt_rec)
  have no0: "0 \<notin> set [1..<n]" by simp
  show ?thesis
  proof (cases "http 0 (x_request api_key query JNull)")
    case (Inl e')
    with assms upt show ?thesis by (auto split: if_splits)
  next
    case (Inr response)
    with assms(1) upt x_fetch_pages_no_http_error [OF no0] assms(2) show ?thesis
      by (auto simp: Let_def split: if_splits sum.splits dest: py_iter_Inl)
  qed
qed

lemma x_depth_config_deep: "x_depth_config ''deep'' = (2, 3)"
  by (simp add: x_depth_config_def X_DEPTH_CONFIG_def)

lemma x_pages_from_0:
  "1 < n \<Longrightarrow> [0..<n] = 0 # 1 # [2..<n]"
  "2 < n \<Longrightarrow> [0..<n] = 0 # 1 # 2 # [3..<n]"
  by (simp_all add: upt_conv_Cons eval_nat_numeral)

text \<open>The loop after one and after two pages that let it go on.\<close>

lemma x_fetch_pages_step:
  assumes "page_continues http api_key query page cursor ts cursor'"
  shows "x_fetch_pages http api_key query (page # pages) cursor all_tweets
           = x_fetch_pages http api_key query pages cursor' (all_tweets @ ts)"
  using assms by (auto simp: page_continues_def Let_def split: sum.splits)

lemma search_x_second_page_fails:
  assumes "1 < snd (x_depth_config depth)"
    and "page_continues http api_key (build_query topic from_date to_date depth) 0 JNull ts0 c0"
    and "http 1 (x_request api_key (build_query topic from_date to_date depth) c0)
           = Inl (HTTPError m)"
  shows "search_x http api_key topic from_date to_date depth None
           = Inr [(''tweets'', JList ts0)]"
proof -
  let ?q = "build_query topic from_date to_date depth"
  let ?n = "snd (x_depth_config depth)"
  have "x_fetch_pages http api_key ?q [0..<?n] JNull []
          = x_fetch_pages http api_key ?q (0 # 1 # [2..<?n]) JNull []"
    by (simp only: x_pages_from_0(1) [OF assms(1)])
  also have "\<dots> = x_fetch_pages http api_key ?q (1 # [2..<?n]) c0 ([] @ ts0)"
    by (rule x_fetch_pages_step [OF assms(2)])
  also have "\<dots> = Inr ([] @ ts0)"
    using assms(3) by simp
  finally show ?thesis
    by (simp add: search_x_def Let_def)
qed

lemma search_x_third_page_fails:
  assumes "2 < snd (x_depth_config depth)"
    and "page_continues http api_key (build_query topic from_date to_date depth) 0 JNull ts0 c0"
    and "page_continues http api_key (build_query topic from_date to_date depth) 1 c0 ts1 c1"
    and "http 2 (x_request api_key (build_query topic from_date to_date depth) c1)
           = Inl (HTTPError m)"
  shows "search_x http api_key topic from_date to_date depth None
           = Inr [(''tweets'', JList (ts0 @ ts1))]"
proof -
  let ?q = "build_query topic from_date to_date depth"
  let ?n = "snd (x_depth_config depth)"
  have "x_fetch_pages http api_key ?q [0..<?n] JNull []
          = x_fetch_pages http api_key ?q (0 # 1 # 2 # [3..<?n]) JNull []"
    by (simp only: x_pages_from_0(2) [OF assms(1)])
  also have "\<dots> = x_fetch_pages http api_key ?q (1 # 2 # [3..<?n]) c0 ([] @ ts0)"
    by (rule x_fetch_pages_step [OF assms(2)])
  also have "\<dots> = x_fetch_pages http api_key ?q (2 # [3..<?n]) c1 (([] @ ts0) @ ts1)"
    by (rule x_fetch_pages_step [OF assms(3)])
  also have "\<dots> = Inr (([] @ ts0) @ ts1)"
    using assms(4) by simp
  finally show ?thesis
    by (simp add: search_x_def Let_def)
qed

lemma two_page_http_page_0:
  "page_continues two_page_http api_key query 0 JNull
     [JDict [(''id'', JStr ''1'')]] (JStr ''c1'')"
  by (simp add: page_continues_def two_page_http_def dget_def dget_none_def)

lemma two_page_http_page_1:
  "page_continues two_page_http api_key query 1 (JStr ''c1'')
     [JDict [(''id'', JStr ''2'')], JDict [(''id'', JStr ''3'')]] (JStr ''c2'')"
  by (simp add: page_continues_def two_page_http_def dget_def dget_none_def x_request_def)

lemma one_page_http_page_0:
  "page_continues one_page_http api_key query 0 JNull
     [JDict [(''id'', JStr ''1'')]] (JStr ''c1'')"
  by (simp add: page_continues_def one_page_http_def dget_def dget_none_def)


text \<open>
  C4. In \<open>search_x\<close> an HTTP error of the transport on the first page reaches the caller.
  An HTTP error on a later page is swallowed and the tweets of the earlier pages are returned:
  when the second page fails the result holds the tweets of the first page, when the third
  page fails it holds the tweets of the first page followed by those of the second; in
  general, when page \<open>p\<close> fails the search returns what the loop over the pages before \<open>p\<close>
  collected. No HTTP error leaves \<open>search_x\<close> unless the first page raised it.
\<close>

theorem search_x_transport_errors:
  "(http 0 (x_request api_key (build_query topic from_date to_date depth) JNull)
      = Inl (HTTPError m)
    \<longrightarrow> search_x http api_key topic from_date to_date depth None = Inl (HTTPError m))
   \<and> (1 < snd (x_depth_config depth)
      \<and> page_continues http api_key (build_query topic from_date to_date depth) 0 JNull ts0 c0
      \<and> http 1 (x_request api_key (build_query topic from_date to_date depth) c0)
          = Inl (HTTPError m)
    \<longrightarrow> search_x http api_key topic from_date to_date depth None
          = Inr [(''tweets'', JList ts0)])
   \<and> (2 < snd (x_depth_config depth)
      \<and> page_continues http api_key (build_query topic from_date to_date depth) 0 JNull ts0 c0
      \<and> page_continues http api_key (build_query topic from_date to_date depth) 1 c0 ts1 c1
      \<and> http 2 (x_request api_key (build_query topic from_date to_date depth) c1)
          = Inl (HTTPError m)
    \<longrightarrow> search_x http api_key topic from_date to_date depth None
          = Inr [(''tweets'', JList (ts0 @ ts1))])
   \<and> (0 < p \<and> p < snd (x_depth_config depth) \<and> (\<forall>req. http p req = Inl (HTTPError m))
    \<longrightarrow> search_x http api_key topic from_date to_date depth None
          = (case x_fetch_pages http api_key (build_query topic from_date to_date depth)
                    [0..<p] JNull [] of
               Inl e \<Rightarrow> Inl e
             | Inr all_tweets \<Rightarrow> Inr [(''tweets'', JList all_tweets)]))
   \<and> (search_x http api_key topic from_date to_date depth None = Inl (HTTPError m)
    \<longrightarrow> http 0 (x_request api_key (build_query topic from_date to_date depth) JNull)
          = Inl (HTTPError m))"
proof -
  let ?q = "build_query topic from_date to_date depth"
  let ?n = "snd (x_depth_config depth)"
  have first: "search_x http api_key topic from_date to_date depth None = Inl (HTTPError m)"
    if "http 0 (x_request api_key ?q JNull) = Inl (HTTPError m)"
  proof -
    have upt: "[0..<?n] = 0 # [1..<?n]"
      using x_max_pages_pos [of depth] by (simp add: upt_conv_Cons)
    show ?thesis
      by (simp add: search_x_def Let_def upt that)
  qed
  have later: "search_x http api_key topic from_date to_date depth None
          = (case x_fetch_pages http api_key ?q [0..<p] JNull [] of
               Inl e \<Rightarrow> Inl e
             | Inr all_tweets \<Rightarrow> Inr [(''tweets'', JList all_tweets)])"
    if "0 < p \<and> p < ?n \<and> (\<forall>req. http p req = Inl (HTTPError m))"
  proof -
    from that have split: "[0..<?n] = [0..<p] @ p # [Suc p..<?n]"
      by (metis less_imp_le_nat upt_add_eq_append upt_conv_Cons le_add_diff_inverse zero_le)
    have "x_fetch_pages http api_key ?q [0..<?n] JNull []
            = x_fetch_pages http api_key ?q [0..<p] JNull []"
      unfolding split using that by (intro x_fetch_pages_cut) auto
    then show ?thesis
      by (simp add: search_x_def Let_def)
  qed
  have raised: "http 0 (x_request api_key ?q JNull) = Inl (HTTPError m)"
    if "search_x http api_key topic from_date to_date depth None = Inl (HTTPError m)"
  proof -
    from that have "x_fetch_pages http api_key ?q [0..<?n] JNull [] = Inl (HTTPError m)"
      by (simp add: search_x_def Let_def split: sum.splits)
    then show ?thesis
      by (rule x_fetch_pages_http_error_first) simp
  qed
  from first later raised search_x_second_page_fails [of depth http api_key topic from_date to_date ts0 c0 m]
    search_x_third_page_fails [of depth http api_key topic from_date to_date ts0 c0 ts1 c1 m]
  show ?thesis
    by blast
qed

theorem search_x_transport_errors_witness:
  "search_x failing_http ''key'' ''AI'' ''2026-01-01'' ''2026-01-31'' ''default'' None
     = Inl (HTTPError ''503'')
   \<and> search_x one_page_http ''key'' ''AI'' ''2026-01-01'' ''2026-01-31'' ''default'' None
     = Inr [(''tweets'', JList [JDict [(''id'', JStr ''1'')]])]
   \<and> search_x two_page_http ''key'' ''AI'' ''2026-01-01'' ''2026-01-31'' ''deep'' None
     = Inr [(''tweets'', JList [JDict [(''id'', JStr ''1'')], JDict [(''id'', JStr ''2'')],
                                JDict [(''id'', JStr ''3'')]])]"
  using search_x_transport_errors [where http = failing_http and api_key = "''key''"
      and topic = "''AI''" and from_date = "''2026-01-01''" and to_date = "''2026-01-31''"
      and depth = "''default''" and m = "''503''" and p = 1]
    search_x_transport_errors [where http = one_page_http and api_key = "''key''"
      and topic = "''AI''" and from_date = "''2026-01-01''" and to_date = "''2026-01-31''"
      and depth = "''default''" and m = "''503''" and p = 1
      and ?ts0.0 = "[JDict [(''id'', JStr ''1'')]]" and ?c0.0 = "JStr ''c1''"]
    search_x_transport_errors [where http = two_page_http and api_key = "''key''"
      and topic = "''AI''" and from_date = "''2026-01-01''" and to_date = "''2026-01-31''"
      and depth = "''deep''" and m = "''503''" and p = 2
      and ?ts0.0 = "[JDict [(''id'', JStr ''1'')]]" and ?c0.0 = "JStr ''c1''"
      and ?ts1.0 = "[JDict [(''id'', JStr ''2'')], JDict [(''id'', JStr ''3'')]]"
      and ?c1.0 = "JStr ''c2''"]
  by (simp add: failing_http_def one_page_http_def two_page_http_def page_continues_def
      x_depth_config_default x_depth_config_deep dget_def dget_none_def x_request_def)

section \<open>The relevance formulas\<close>

text \<open>Each relevance formula is a position term plus an engagement term that does not
  depend on the position; an exception comes from the engagement fields alone.\<close>

lemma x_compute_relevance_split:
  "(\<exists>e. \<forall>p n. x_compute_relevance p n tweet = Inl e)
   \<or> (\<exists>g. \<forall>p n. x_compute_relevance p n tweet
          = Inr (0.6 * (if n \<le> 1 then 1 else 1 - 0.5 * (real_of_int p / real_of_int (n - 1)))
                 + 0.4 * g))"
  by (cases "x_log_count tweet ''likeCount''"; cases "x_log_count tweet ''retweetCount''";
      cases "x_log_count tweet ''replyCount''"; cases "x_log_count tweet ''quoteCount''")
     (simp_all add: x_compute_relevance_def Let_def)

lemma dailydev_compute_relevance_split:
  "(\<exists>e. \<forall>p n. dailydev_compute_relevance p n post = Inl e)
   \<or> (\<exists>g. \<forall>p n. dailydev_compute_relevance p n post
          = Inr (0.5 * pos_score_floor p n + 0.5 * g))"
proof (cases "py_min20 (py_or (dget post ''readTime'' (JInt 0)) (JInt 0))")
  case (Inl e)
  then show ?thesis by (simp add: dailydev_compute_relevance_def Let_def)
next
  case (Inr read_time)
  then show ?thesis
    by (cases "log1p (py_or (dget post ''upvotes'' (JInt 0)) (JInt 0))";
        cases "log1p (py_or (dget post ''comments'' (JInt 0)) (JInt 0))";
        cases "py_number read_time")
       (simp_all add: dailydev_compute_relevance_def Let_def)
qed

lemma tubelab_compute_relevance_split:
  "(\<exists>e. \<forall>p n. tubelab_compute_relevance p n video = Inl e)
   \<or> (\<exists>g. \<forall>p n. tubelab_compute_relevance p n video
          = Inr (0.4 * pos_score_floor p n + 0.6 * g))"
  by (cases "log1p (py_or (dget video ''views'' (JInt 0)) (JInt 0))";
      cases "log1p (py_or (dget video ''likes'' (JInt 0)) (JInt 0))";
      cases "log1p (py_or (dget video ''comments'' (JInt 0)) (JInt 0))")
     (simp_all add: tubelab_compute_relevance_def Let_def)

lemma pos_score_floor_first: "pos_score_floor 0 n = 1"
  by (simp add: pos_score_floor_def)

lemma pos_score_floor_le_1: "0 \<le> p \<Longrightarrow> pos_score_floor p n \<le> 1"
  by (simp add: pos_score_floor_def)

text \<open>
  C7. For the relevance formula of the social, the article and the video adapter, with the
  engagement fields of the item fixed and any total \<open>N \<ge> 1\<close>: the relevance at position 0
  is at least the relevance at position \<open>N - 1\<close> (or the formula raises at both positions,
  with the same exception).
\<close>

theorem first_position_scores_highest:
  assumes "1 \<le> N"
  shows "((\<exists>a b. x_compute_relevance 0 N item = Inr a
                \<and> x_compute_relevance (N - 1) N item = Inr b \<and> b \<le> a)
          \<or> (\<exists>e. x_compute_relevance 0 N item = Inl e
                \<and> x_compute_relevance (N - 1) N item = Inl e))
       \<and> ((\<exists>a b. dailydev_compute_relevance 0 N item = Inr a
                \<and> dailydev_compute_relevance (N - 1) N item = Inr b \<and> b \<le> a)
          \<or> (\<exists>e. dailydev_compute_relevance 0 N item = Inl e
                \<and> dailydev_compute_relevance (N - 1) N item = Inl e))
       \<and> ((\<exists>a b. tubelab_compute_relevance 0 N item = Inr a
                \<and> tubelab_compute_relevance (N - 1) N item = Inr b \<and> b \<le> a)
          \<or> (\<exists>e. tubelab_compute_relevance 0 N item = Inl e
                \<and> tubelab_compute_relevance (N - 1) N item = Inl e))"
proof (intro conjI)
  have last: "pos_score_floor (N - 1) N \<le> 1"
    using assms by (intro pos_score_floor_le_1) simp
  show "(\<exists>a b. x_compute_relevance 0 N item = Inr a
                \<and> x_compute_relevance (N - 1) N item = Inr b \<and> b \<le> a)
          \<or> (\<exists>e. x_compute_relevance 0 N item = Inl e
                \<and> x_compute_relevance (N - 1) N item = Inl e)"
    using x_compute_relevance_split [of item] assms by auto
  show "(\<exists>a b. dailydev_compute_relevance 0 N item = Inr a
                \<and> dailydev_compute_relevance (N - 1) N item = Inr b \<and> b \<le> a)
          \<or> (\<exists>e. dailydev_compute_relevance 0 N item = Inl e
                \<and> dailydev_compute_relevance (N - 1) N item = Inl e)"
    using dailydev_compute_relevance_split [of item] last
    by (auto simp: pos_score_floor_first)
  show "(\<exists>a b. tubelab_compute_relevance 0 N item = Inr a
                \<and> tubelab_compute_relevance (N - 1) N item = Inr b \<and> b \<le> a)
          \<or> (\<exists>e. tubelab_compute_relevance 0 N item = Inl e
                \<and> tubelab_compute_relevance (N - 1) N item = Inl e)"
    using tubelab_compute_relevance_split [of item] last
    by (auto simp: pos_score_floor_first)
qed

lemma log1p_zero: "log1p (JInt 0) = Inr 0"
  by (simp add: log1p_def)

theorem first_position_scores_highest_witness:
  "(1::int) \<le> 10
   \<and> x_compute_relevance 0 10 [] = Inr (3 / 5) \<and> x_compute_relevance (10 - 1) 10 [] = Inr (3 / 10)
   \<and> dailydev_compute_relevance 0 10 [] = Inr (1 / 2)
   \<and> dailydev_compute_relevance (10 - 1) 10 [] = Inr (1 / 20)
   \<and> tubelab_compute_relevance 0 10 [] = Inr (2 / 5)
   \<and> tubelab_compute_relevance (10 - 1) 10 [] = Inr (1 / 25)"
  using first_position_scores_highest [of 10 "[]"]
  by (simp add: x_compute_relevance_def x_log_count_def py_max0_def py_or_def dget_def
      log1p_zero dailydev_compute_relevance_def tubelab_compute_relevance_def
      pos_score_floor_def py_min20_def py_number_def Let_def)

lemma dropWhile_hd: "xs \<noteq> [] \<Longrightarrow> \<not> P (hd xs) \<Longrightarrow> dropWhile P xs = xs"
  by (cases xs) auto

lemma strip_plain:
  assumes "s \<noteq> []" and "\<not> is_space (hd s)" and "\<not> is_space (last s)"
  shows "strip s = s"
proof -
  have "dropWhile is_space s = s"
    using assms by (simp add: dropWhile_hd)
  moreover have "dropWhile is_space (rev s) = rev s"
    using assms by (simp add: dropWhile_hd hd_rev)
  ultimately show ?thesis by (simp add: strip_def)
qed

lemma str_nat_1: "str_nat (Suc 0) = ''1''"
  by (simp add: str_nat.simps [of "Suc 0"] digit_char_def)

text \<open>
  C1. The relevance of every parsed item is meant to lie between 0.0 and 1.0. The article
  parser does not keep this: \<open>parse_dailydev_response\<close> returns the relevance that
  \<open>_compute_relevance\<close> computes, without clamping it, and for a post with a read time of
  \<open>-4000\<close> the engagement term is \<open>-10/7\<close> and the relevance of the item is \<open>-3/14\<close>.
\<close>

theorem dailydev_relevance_negative:
  "parse_dailydev_response negative_read_time_response
     = Inr [\<lparr> dd_id = ''DD1'', dd_title = ''T'', dd_url = ''https://example.com/a'',
              dd_source_name = JStr [], dd_author_name = JStr [], dd_author_username = JStr [],
              dd_date = JNull, dd_summary = JStr [], dd_tags = JList [],
              dd_read_time = JInt (- 4000), dd_engagement = None, dd_why_relevant = [],
              dd_relevance = - 3 / 14 \<rparr>]"
  by (simp add: str_nat_1 negative_read_time_response_def parse_dailydev_response_def dget_def
      dget_none_def dd_parse_post_def py_strip_def strip_plain is_space_def iso_date_prefix_def
      py_or_def attr_get_def dailydev_compute_relevance_def pos_score_floor_def py_min20_def
      log1p_zero py_number_def Let_def)

section \<open>The signature of the discussion search\<close>

text \<open>
  C5. The search of every adapter is meant to take the credential, the topic, the window
  bounds and the depth. \<open>search_reddit\<close> does not: it is defined with the parameters
  \<open>api_key\<close>, \<open>model\<close>, \<open>topic\<close> and \<open>mock_response\<close>: the call that \<open>_search_reddit\<close> makes,
  with \<open>from_date\<close> and \<open>to_date\<close> as fourth and fifth positional argument and the keyword
  \<open>depth\<close>, raises \<^verbatim>\<open>TypeError\<close> before any request is sent.
\<close>

theorem search_reddit_rejects_window_arguments:
  "search_reddit L http (reddit_call api_key model topic from_date to_date depth)
     = Inl TypeError"
  by (simp add: search_reddit_def bind_args_def reddit_call_def)

lemma search_reddit_accepts_three_arguments:
  "search_reddit L http \<lparr> pos_args = [JStr api_key, JStr model, JStr topic], kw_args = [] \<rparr>
     = (case http 0 \<lparr> req_url = OPENAI_RESPONSES_URL,
            req_params =
              [(''model'', JStr model),
               (''tools'', JList [JDict [(''type'', JStr ''web_search''),
                  (''filters'', JDict [(''allowed_domains'', JList [JStr ''reddit.com''])])]]),
               (''include'', JList [JStr ''web_search_call.action.sources'']),
               (''input'', JStr (REDDIT_SEARCH_PROMPT topic))],
            req_headers = [(''Authorization'', ''Bearer '' @ api_key),
                           (''Content-Type'', ''application/json'')],
            req_timeout = 60 \<rparr> of
          Inl e \<Rightarrow> Inl e
        | Inr response \<Rightarrow> Inr (JDict response))"
  by (simp add: search_reddit_def bind_args_def dget_none_def dget_def)

section \<open>Loops that collect items\<close>

lemma collect_Inr_Cons:
  "collect f (x # xs) = Inr ys
     \<longleftrightarrow> (\<exists>r zs. f x = Inr r \<and> collect f xs = Inr zs
                  \<and> ys = (case r of None \<Rightarrow> zs | Some y \<Rightarrow> y # zs))"
  by (auto split: sum.splits)

text \<open>Every collected item comes from an element on which the body yielded it.\<close>

lemma collect_Inr_set:
  assumes "collect f xs = Inr ys" and "y \<in> set ys"
  shows "\<exists>x \<in> set xs. f x = Inr (Some y)"
  using assms
proof (induction xs arbitrary: ys)
  case Nil
  then show ?case by simp
next
  case (Cons x xs)
  from Cons.prems(1) [unfolded collect_Inr_Cons]
  obtain r zs where r: "f x = Inr r" and zs: "collect f xs = Inr zs"
    and ys: "ys = (case r of None \<Rightarrow> zs | Some y \<Rightarrow> y # zs)"
    by blast
  show ?case
  proof (cases "y \<in> set zs")
    case True
    with Cons.IH [OF zs] show ?thesis by auto
  next
    case False
    with ys Cons.prems(2) r show ?thesis by (cases r) auto
  qed
qed

text \<open>A view of the collected items is the concatenation of the views of the elements.\<close>

lemma collect_Inr_concat:
  assumes "collect f xs = Inr ys"
    and "\<And>x r. x \<in> set xs \<Longrightarrow> f x = Inr r
           \<Longrightarrow> map h (case r of None \<Rightarrow> [] | Some y \<Rightarrow> [y]) = g x"
  shows "map h ys = concat (map g xs)"
  using assms
proof (induction xs arbitrary: ys)
  case Nil
  then show ?case by simp
next
  case (Cons x xs)
  from Cons.prems(1) [unfolded collect_Inr_Cons]
  obtain r zs where r: "f x = Inr r" and zs: "collect f xs = Inr zs"
    and ys: "ys = (case r of None \<Rightarrow> zs | Some y \<Rightarrow> y # zs)"
    by blast
  have tail: "map h zs = concat (map g xs)"
    using Cons.IH [OF zs] Cons.prems(2) by simp
  have head: "map h (case r of None \<Rightarrow> [] | Some y \<Rightarrow> [y]) = g x"
    using Cons.prems(2) [of x r] r by simp
  show ?case
    using ys tail head by (cases r) auto
qed

section \<open>The discussion adapter keeps reddit.com URLs only\<close>

lemma reddit_clean_item_view:
  assumes "reddit_clean_item L i entry = Inr r"
  shows "map r_id (case r of None \<Rightarrow> [] | Some y \<Rightarrow> [y])
           = (if reddit_keeps entry then [''R'' @ str_nat (i + 1)] else [])"
    and "map r_url (case r of None \<Rightarrow> [] | Some y \<Rightarrow> [y])
           = (case entry of
                JDict item \<Rightarrow> if reddit_keeps entry then [dget item ''url'' (JStr [])] else []
              | _ \<Rightarrow> [])"
  using assms
  by (auto simp: reddit_clean_item_def reddit_keeps_def Let_def ebind_eq_Inr
      split: json.splits if_splits)

lemma reddit_keeps_str:
  "dget item ''url'' (JStr []) = JStr u
     \<Longrightarrow> reddit_keeps (JDict item) = (u \<noteq> [] \<and> contains ''reddit.com'' u)"
  by (auto simp: reddit_keeps_def)

lemma clean_items_ids:
  assumes "clean_items L items = Inr out"
  shows "\<exists>entries. py_iter items = Inr entries
           \<and> map r_id out = [''R'' @ str_nat (i + 1). (i, e) \<leftarrow> enumerate 0 entries, reddit_keeps e]"
proof -
  from assms obtain entries where it: "py_iter items = Inr entries"
    and c: "collect (\<lambda>(i, entry). reddit_clean_item L i entry) (enumerate 0 entries) = Inr out"
    by (auto simp: clean_items_def ebind_eq_Inr)
  have "map r_id out
          = concat (map (\<lambda>(i, e). if reddit_keeps e then [''R'' @ str_nat (i + 1)] else [])
              (enumerate 0 entries))"
    by (rule collect_Inr_concat [OF c]) (auto dest: reddit_clean_item_view(1))
  with it show ?thesis by auto
qed

lemma reddit_first_of_two:
  assumes a: "dget a ''url'' (JStr []) = JStr ua" "contains ''reddit.com'' ua"
    and b: "dget b ''url'' (JStr []) = JStr ub" "\<not> contains ''reddit.com'' ub"
    and rel: "py_float L (dget a ''relevance'' (JFloat 0.5)) = Inr rel"
  shows "\<exists>item. clean_items L (JList [JDict a, JDict b]) = Inr [item]
           \<and> r_id item = ''R1'' \<and> r_url item = JStr ua"
proof -
  have "ua \<noteq> []" using a(2) by auto
  then show ?thesis
    using a b rel
    by (auto simp: clean_items_def reddit_clean_item_def Let_def str_nat_1)
qed

text \<open>
  When \<open>parse_reddit_response\<close> returns a list, the identifiers of its items are those of
  the entries that are dictionaries with a truthy \<open>url\<close> containing "reddit.com", in their
  order, each the identifier of its position. For a payload of two items, the first with a reddit.com URL
  and a relevance that \<^verbatim>\<open>float\<close> converts, the second with a URL without "reddit.com", the
  result is the first item alone, with identifier "R1".
\<close>

lemma parse_reddit_drops_other_urls:
  "(parse_reddit_response L response = Inr out
    \<longrightarrow> (\<exists>items entries. extract_items L response = Inr items \<and> py_iter items = Inr entries
          \<and> map r_id out
              = [''R'' @ str_nat (i + 1). (i, e) \<leftarrow> enumerate 0 entries, reddit_keeps e]))
   \<and> (dget item ''url'' (JStr []) = JStr u
    \<longrightarrow> reddit_keeps (JDict item) = (u \<noteq> [] \<and> contains ''reddit.com'' u))
   \<and> (extract_items L response = Inr (JList [JDict a, JDict b])
      \<and> dget a ''url'' (JStr []) = JStr ua \<and> contains ''reddit.com'' ua
      \<and> dget b ''url'' (JStr []) = JStr ub \<and> \<not> contains ''reddit.com'' ub
      \<and> py_float L (dget a ''relevance'' (JFloat 0.5)) = Inr rel
    \<longrightarrow> (\<exists>first. parse_reddit_response L response = Inr [first]
          \<and> r_id first = ''R1'' \<and> r_url first = JStr ua))"
proof (intro conjI impI)
  assume "parse_reddit_response L response = Inr out"
  then obtain items where "extract_items L response = Inr items"
    and "clean_items L items = Inr out"
    by (auto simp: parse_reddit_response_def ebind_eq_Inr)
  then show "\<exists>items entries. extract_items L response = Inr items \<and> py_iter items = Inr entries
          \<and> map r_id out
              = [''R'' @ str_nat (i + 1). (i, e) \<leftarrow> enumerate 0 entries, reddit_keeps e]"
    using clean_items_ids by blast
next
  assume "dget item ''url'' (JStr []) = JStr u"
  then show "reddit_keeps (JDict item) = (u \<noteq> [] \<and> contains ''reddit.com'' u)"
    by (rule reddit_keeps_str)
next
  assume ex: "extract_items L response = Inr (JList [JDict a, JDict b])
      \<and> dget a ''url'' (JStr []) = JStr ua \<and> contains ''reddit.com'' ua
      \<and> dget b ''url'' (JStr []) = JStr ub \<and> \<not> contains ''reddit.com'' ub
      \<and> py_float L (dget a ''relevance'' (JFloat 0.5)) = Inr rel"
  then have "\<exists>first. clean_items L (JList [JDict a, JDict b]) = Inr [first]
           \<and> r_id first = ''R1'' \<and> r_url first = JStr ua"
    by (intro reddit_first_of_two) auto
  with ex show "\<exists>first. parse_reddit_response L response = Inr [first]
          \<and> r_id first = ''R1'' \<and> r_url first = JStr ua"
    by (simp add: parse_reddit_response_def)
qed

lemma sample_extract_items:
  "extract_items sample_lib sample_reddit_response
     = Inr (JList [JDict sample_entry_a, JDict sample_entry_b])"
  by (simp add: extract_items_def find_output_text_def sample_reddit_response_def dget_def
      dget_none_def re_search_items_def quoted_items_def sample_lib_def attr_get_def
      sample_text_def)

lemma parse_reddit_drops_other_urls_sample:
  "parse_reddit_response sample_lib sample_reddit_response
     = Inr [\<lparr> r_id = ''R1'', r_title = ''X'',
              r_url = JStr ''https://www.reddit.com/r/a/comments/1'', r_subreddit = [],
              r_date = JNull, r_why_relevant = [], r_relevance = 1 / 2 \<rparr>]
   \<and> reddit_keeps (JDict sample_entry_a) \<and> \<not> reddit_keeps (JDict sample_entry_b)"
  using parse_reddit_drops_other_urls [of sample_lib sample_reddit_response
      "[\<lparr> r_id = ''R1'', r_title = ''X'',
              r_url = JStr ''https://www.reddit.com/r/a/comments/1'', r_subreddit = [],
              r_date = JNull, r_why_relevant = [], r_relevance = 1 / 2 \<rparr>]"
      sample_entry_a "''https://www.reddit.com/r/a/comments/1''" sample_entry_a sample_entry_b
      "''https://www.reddit.com/r/a/comments/1''" "''https://example.com/b''" "1 / 2"]
  by (simp add: parse_reddit_response_def sample_extract_items clean_items_def
      reddit_clean_item_def sample_entry_a_def sample_entry_b_def dget_def dget_none_def
      reddit_keeps_def str_nat_1 strip_def is_space_def lstrip_chars_def Let_def)

text \<open>The payloads with a null relevance and with a number for \<open>url\<close>, up to the cleaning
  loop, and the loop on them.\<close>

lemma null_relevance_extract_items:
  "extract_items sample_lib null_relevance_response
     = Inr (JList [JDict null_relevance_entry_a, JDict sample_entry_b])"
  by (simp add: extract_items_def find_output_text_def null_relevance_response_def dget_def
      dget_none_def re_search_items_def quoted_items_def sample_lib_def attr_get_def
      sample_text_def dated_text_def null_relevance_text_def)

lemma number_url_extract_items:
  "extract_items sample_lib number_url_response = Inr (JList [JDict number_url_entry])"
  by (simp add: extract_items_def find_output_text_def number_url_response_def dget_def
      dget_none_def re_search_items_def quoted_items_def sample_lib_def attr_get_def
      sample_text_def dated_text_def null_relevance_text_def number_url_text_def)

lemma mixed_extract_items:
  "extract_items sample_lib mixed_reddit_response = Inr (JList mixed_entries)"
  by (simp add: extract_items_def find_output_text_def mixed_reddit_response_def dget_def
      dget_none_def re_search_items_def quoted_items_def sample_lib_def attr_get_def
      sample_text_def dated_text_def null_relevance_text_def number_url_text_def mixed_text_def)

lemma null_relevance_clean:
  "clean_items L (JList [JDict null_relevance_entry_a, JDict sample_entry_b]) = Inl TypeError"
  by (simp add: clean_items_def reddit_clean_item_def null_relevance_entry_a_def dget_def
      dget_none_def Let_def ebind_def)

lemma number_url_clean:
  "clean_items L (JList [JDict number_url_entry]) = Inl TypeError"
  by (simp add: clean_items_def reddit_clean_item_def number_url_entry_def dget_def
      dget_none_def Let_def ebind_def)

lemma mixed_clean:
  "clean_items L (JList mixed_entries)
     = Inr [\<lparr> r_id = ''R7'', r_title = ''X'',
              r_url = JStr ''https://www.reddit.com/r/a/comments/1'', r_subreddit = [],
              r_date = JNull, r_why_relevant = [], r_relevance = 1 / 2 \<rparr>]"
  by (simp add: clean_items_def reddit_clean_item_def mixed_entries_def sample_entry_a_def
      sample_entry_b_def dget_def dget_none_def Let_def ebind_def str_nat_digit digit_char_def
      strip_def is_space_def lstrip_chars_def)

lemma sample_clean:
  "clean_items L (JList [JDict sample_entry_a, JDict sample_entry_b])
     = Inr [\<lparr> r_id = ''R1'', r_title = ''X'',
              r_url = JStr ''https://www.reddit.com/r/a/comments/1'', r_subreddit = [],
              r_date = JNull, r_why_relevant = [], r_relevance = 1 / 2 \<rparr>]"
  by (simp add: clean_items_def reddit_clean_item_def sample_entry_a_def
      sample_entry_b_def dget_def dget_none_def Let_def ebind_def str_nat_1
      strip_def is_space_def lstrip_chars_def)

text \<open>
  C2. \<open>parse_reddit_response\<close> does not drop every entry whose \<open>url\<close> does not contain
  "reddit.com", and the payload of two items does not always give the first item alone.
  With the first item on reddit.com, the second not, and no relevance field, the result is
  the first item with identifier "R1"; entries that are not dictionaries or have no \<open>url\<close>,
  an empty or null \<open>url\<close> or a string without "reddit.com" are skipped, the item after them
  keeping the identifier of its position. But when the \<open>url\<close> of an entry is a number, the
  test \<^verbatim>\<open>"reddit.com" not in url\<close> raises \<^verbatim>\<open>TypeError\<close> instead of dropping the entry, and when
  the relevance of the first of the two items is null, \<^verbatim>\<open>float(None)\<close> raises \<^verbatim>\<open>TypeError\<close>:
  the parser returns no list at all.
\<close>

theorem parse_reddit_raises_type_error:
  "parse_reddit_response sample_lib null_relevance_response = Inl TypeError
   \<and> parse_reddit_response sample_lib number_url_response = Inl TypeError
   \<and> clean_items L (JList [JDict null_relevance_entry_a, JDict sample_entry_b]) = Inl TypeError
   \<and> clean_items L (JList [JDict number_url_entry]) = Inl TypeError
   \<and> parse_reddit_response sample_lib sample_reddit_response
       = Inr [\<lparr> r_id = ''R1'', r_title = ''X'',
                r_url = JStr ''https://www.reddit.com/r/a/comments/1'', r_subreddit = [],
                r_date = JNull, r_why_relevant = [], r_relevance = 1 / 2 \<rparr>]
   \<and> parse_reddit_response sample_lib mixed_reddit_response
       = Inr [\<lparr> r_id = ''R7'', r_title = ''X'',
                r_url = JStr ''https://www.reddit.com/r/a/comments/1'', r_subreddit = [],
                r_date = JNull, r_why_relevant = [], r_relevance = 1 / 2 \<rparr>]"
proof -
  have "parse_reddit_response sample_lib null_relevance_response = Inl TypeError"
    by (simp add: parse_reddit_response_def null_relevance_extract_items null_relevance_clean
        ebind_def)
  moreover have "parse_reddit_response sample_lib number_url_response = Inl TypeError"
    by (simp add: parse_reddit_response_def number_url_extract_items number_url_clean
        ebind_def)
  moreover have "parse_reddit_response sample_lib sample_reddit_response
       = Inr [\<lparr> r_id = ''R1'', r_title = ''X'',
                r_url = JStr ''https://www.reddit.com/r/a/comments/1'', r_subreddit = [],
                r_date = JNull, r_why_relevant = [], r_relevance = 1 / 2 \<rparr>]"
    by (simp add: parse_reddit_response_def sample_extract_items sample_clean ebind_def)
  moreover have "parse_reddit_response sample_lib mixed_reddit_response
       = Inr [\<lparr> r_id = ''R7'', r_title = ''X'',
                r_url = JStr ''https://www.reddit.com/r/a/comments/1'', r_subreddit = [],
                r_date = JNull, r_why_relevant = [], r_relevance = 1 / 2 \<rparr>]"
    by (simp add: parse_reddit_response_def mixed_extract_items mixed_clean ebind_def)
  ultimately show ?thesis
    using null_relevance_clean [of L] number_url_clean [of L] by simp
qed

section \<open>Dates of the parsed items\<close>

lemma in_enumerateD: "(i, x) \<in> set (enumerate n xs) \<Longrightarrow> x \<in> set xs"
  by (auto simp: in_set_enumerate_eq)

lemma reddit_clean_item_date:
  assumes "reddit_clean_item L i entry = Inr (Some it)" and "truthy (r_date it)"
  shows "re_match_date (py_str L (r_date it))"
  using assms
  by (auto simp: reddit_clean_item_def Let_def ebind_eq_Inr split: json.splits if_splits)

lemma parse_created_at_Some:
  assumes "parse_created_at L v = Some d"
  shows "date_shape d \<or> (\<exists>s. strptime_twitter L s = Some d)"
  using assms
  by (auto simp: parse_created_at_def Let_def split: json.splits if_splits)

lemma x_parse_tweet_date:
  assumes "x_parse_tweet L n i tw = Inr (Some it)" and "x_date it = Some d"
  shows "date_shape d \<or> (\<exists>s. strptime_twitter L s = Some d)"
proof -
  from assms(1) obtain tweet where tw: "tw = JDict tweet"
    by (auto simp: x_parse_tweet_def split: json.splits)
  from assms(1) have "x_date it = parse_created_at L (dget_none tweet ''createdAt'')"
    unfolding tw
    by (auto simp: x_parse_tweet_def Let_def ebind_eq_Inr split: option.splits)
  with assms(2) show ?thesis
    by (simp add: parse_created_at_Some)
qed

lemma dd_parse_post_date:
  assumes "dd_parse_post n i p = Inr (Some it)"
  shows "\<exists>post. p = JDict post
           \<and> iso_date_prefix (dget post ''createdAt'' (JStr [])) = Inr (dd_date it)"
proof -
  from assms obtain post where p: "p = JDict post"
    by (auto simp: dd_parse_post_def split: json.splits)
  from assms have "iso_date_prefix (dget post ''createdAt'' (JStr [])) = Inr (dd_date it)"
    unfolding p
    by (auto simp: dd_parse_post_def Let_def ebind_eq_Inr split: if_splits)
  with p show ?thesis by simp
qed

lemma yt_parse_video_date:
  assumes "yt_parse_video L n i v = Inr (Some it)"
  shows "\<exists>video. v = JDict video
           \<and> iso_date_prefix (dget video ''publishedAt'' (JStr [])) = Inr (yt_date it)"
proof -
  from assms obtain video where v: "v = JDict video"
    by (auto simp: yt_parse_video_def split: json.splits)
  from assms have "iso_date_prefix (dget video ''publishedAt'' (JStr [])) = Inr (yt_date it)"
    unfolding v
    by (auto simp: yt_parse_video_def Let_def ebind_eq_Inr split: if_splits)
  with v show ?thesis by simp
qed

lemma iso_date_prefix_str:
  "iso_date_prefix (JStr s) = Inr (if 10 \<le> length s then JStr (take 10 s) else JNull)"
  by (auto simp: iso_date_prefix_def)

text \<open>The items of each parser come from the elements of the response's list.\<close>

lemma parse_reddit_response_item:
  assumes "parse_reddit_response L response = Inr out" and "it \<in> set out"
  shows "\<exists>i entry. reddit_clean_item L i entry = Inr (Some it)"
proof -
  from assms(1) obtain entries where
    "collect (\<lambda>(i, entry). reddit_clean_item L i entry) (enumerate 0 entries) = Inr out"
    by (auto simp: parse_reddit_response_def clean_items_def ebind_eq_Inr)
  from collect_Inr_set [OF this assms(2)] show ?thesis by auto
qed

lemma parse_x_response_item:
  assumes "parse_x_response L response = Inr out" and "it \<in> set out"
  shows "\<exists>ts n i tw. py_iter (dget response ''tweets'' (JList [])) = Inr ts \<and> tw \<in> set ts
           \<and> x_parse_tweet L n i tw = Inr (Some it)"
proof -
  from assms obtain n ts where ts: "py_iter (dget response ''tweets'' (JList [])) = Inr ts"
    and c: "collect (\<lambda>(i, tweet). x_parse_tweet L n i tweet) (enumerate 0 ts) = Inr out"
    by (auto simp: parse_x_response_def Let_def ebind_eq_Inr split: if_splits)
  from collect_Inr_set [OF c assms(2)] ts show ?thesis
    by (auto dest: in_enumerateD)
qed

lemma parse_dailydev_response_item:
  assumes "parse_dailydev_response response = Inr out" and "it \<in> set out"
  shows "\<exists>ps n i p. py_iter (dget response ''posts'' (JList [])) = Inr ps \<and> p \<in> set ps
           \<and> dd_parse_post n i p = Inr (Some it)"
proof -
  from assms obtain n ps where ps: "py_iter (dget response ''posts'' (JList [])) = Inr ps"
    and c: "collect (\<lambda>(i, post). dd_parse_post n i post) (enumerate 0 ps) = Inr out"
    by (auto simp: parse_dailydev_response_def Let_def ebind_eq_Inr split: if_splits)
  from collect_Inr_set [OF c assms(2)] ps show ?thesis
    by (auto dest: in_enumerateD)
qed

lemma parse_youtube_response_item:
  assumes "parse_youtube_response L response = Inr out" and "it \<in> set out"
  shows "\<exists>vs n i v. py_iter (dget response ''videos'' (JList [])) = Inr vs \<and> v \<in> set vs
           \<and> yt_parse_video L n i v = Inr (Some it)"
proof -
  from assms obtain n vs where vs: "py_iter (dget response ''videos'' (JList [])) = Inr vs"
    and c: "collect (\<lambda>(i, video). yt_parse_video L n i video) (enumerate 0 vs) = Inr out"
    by (auto simp: parse_youtube_response_def Let_def ebind_eq_Inr split: if_splits)
  from collect_Inr_set [OF c assms(2)] vs show ?thesis
    by (auto dest: in_enumerateD)
qed

lemma str_nat_2: "str_nat (Suc (Suc 0)) = ''2''"
  by (simp add: str_nat.simps [of "Suc (Suc 0)"] digit_char_def)

lemma str_nat_3: "str_nat (Suc (Suc (Suc 0))) = ''3''"
  by (simp add: str_nat.simps [of "Suc (Suc (Suc 0))"] digit_char_def)

text \<open>The sample responses, parsed.\<close>

lemma sample_parse_dated_reddit:
  "parse_reddit_response sample_lib dated_reddit_response
     = Inr [\<lparr> r_id = ''R1'', r_title = [], r_url = JStr ''https://reddit.com/r/a/1'',
              r_subreddit = [], r_date = JStr ''2026-01-15'', r_why_relevant = [],
              r_relevance = 1 / 2 \<rparr>,
            \<lparr> r_id = ''R2'', r_title = [], r_url = JStr ''https://reddit.com/r/b/2'',
              r_subreddit = [], r_date = JNull, r_why_relevant = [],
              r_relevance = 1 / 2 \<rparr>]"
  by (simp add: parse_reddit_response_def extract_items_def find_output_text_def
      dated_reddit_response_def re_search_items_def quoted_items_def dated_text_def
      sample_text_def sample_lib_def attr_get_def clean_items_def reddit_clean_item_def
      dated_entry_a_def dated_entry_b_def dget_def dget_none_def str_nat_1 str_nat_2
      strip_def lstrip_chars_def re_match_date_def is_digit_def Let_def)

lemma sample_parse_x:
  "parse_x_response sample_lib sample_x_response
     = Inr [\<lparr> x_id = ''X1'', x_text = [], x_url = JStr ''https://x.com/a/status/1'',
              x_author_handle = [], x_date = Some ''2026-01-15'',
              x_eng = \<lparr> x_likes = 0, x_reposts = 0, x_replies = 0, x_quotes = 0 \<rparr>,
              x_why_relevant = [], x_relevance = 3 / 5 \<rparr>,
            \<lparr> x_id = ''X2'', x_text = [], x_url = JStr ''https://x.com/a/status/2'',
              x_author_handle = [], x_date = Some ''2026-01-15'',
              x_eng = \<lparr> x_likes = 0, x_reposts = 0, x_replies = 0, x_quotes = 0 \<rparr>,
              x_why_relevant = [], x_relevance = 9 / 20 \<rparr>,
            \<lparr> x_id = ''X3'', x_text = [], x_url = JStr ''https://x.com/a/status/3'',
              x_author_handle = [], x_date = None,
              x_eng = \<lparr> x_likes = 0, x_reposts = 0, x_replies = 0, x_quotes = 0 \<rparr>,
              x_why_relevant = [], x_relevance = 3 / 10 \<rparr>]"
  by (simp add: parse_x_response_def sample_x_response_def dget_def dget_none_def
      x_parse_tweet_def x_tweet_url_def parse_created_at_def strip_plain is_space_def
      is_digit_def sample_lib_def x_count_def py_or_def x_compute_relevance_def
      x_log_count_def py_max0_def log1p_zero str_nat_1 str_nat_2 str_nat_3 strip_def
      lstrip_chars_def Let_def)

lemma sample_parse_malformed_date:
  "parse_dailydev_response malformed_date_response
     = Inr [\<lparr> dd_id = ''DD1'', dd_title = ''T'', dd_url = ''https://example.com/a'',
              dd_source_name = JStr [], dd_author_name = JStr [], dd_author_username = JStr [],
              dd_date = JStr ''not a date'', dd_summary = JStr [], dd_tags = JList [],
              dd_read_time = JNull, dd_engagement = None, dd_why_relevant = [],
              dd_relevance = 1 / 2 \<rparr>]"
  by (simp add: malformed_date_response_def parse_dailydev_response_def dget_def
      dget_none_def dd_parse_post_def py_strip_def strip_plain is_space_def iso_date_prefix_def
      py_or_def attr_get_def dailydev_compute_relevance_def pos_score_floor_def py_min20_def
      log1p_zero py_number_def str_nat_1 Let_def)

lemma sample_parse_youtube:
  "parse_youtube_response sample_lib sample_youtube_response
     = Inr [\<lparr> yt_id = ''YT1'', yt_title = ''V'',
              yt_url = ''https://www.youtube.com/watch?v=abc'',
              yt_channel_name = JStr [], yt_channel_id = JStr [],
              yt_date = JStr ''2026-01-22'', yt_duration = JNull, yt_thumbnail = JStr [],
              yt_engagement = None, yt_why_relevant = [], yt_relevance = 2 / 5 \<rparr>]"
  by (simp add: sample_youtube_response_def parse_youtube_response_def dget_def
      dget_none_def yt_parse_video_def py_strip_def strip_plain is_space_def
      iso_date_prefix_def py_or_def tubelab_compute_relevance_def pos_score_floor_def
      log1p_zero str_nat_1 Let_def)

lemma sample_parse_malformed_video:
  "parse_youtube_response sample_lib malformed_video_response
     = Inr [\<lparr> yt_id = ''YT1'', yt_title = ''V'',
              yt_url = ''https://www.youtube.com/watch?v=abc'',
              yt_channel_name = JStr [], yt_channel_id = JStr [],
              yt_date = JStr ''last Tuesd'', yt_duration = JNull, yt_thumbnail = JStr [],
              yt_engagement = None, yt_why_relevant = [], yt_relevance = 2 / 5 \<rparr>]"
  by (simp add: malformed_video_response_def parse_youtube_response_def dget_def
      dget_none_def yt_parse_video_def py_strip_def strip_plain is_space_def
      iso_date_prefix_def py_or_def tubelab_compute_relevance_def pos_score_floor_def
      log1p_zero str_nat_1 Let_def)

text \<open>
  C6. Not every parser replaces a malformed date by null. The discussion parser does (the
  date "yesterday" becomes null) and so does the social parser (the date "soon" becomes
  null); the article parser and the video parser pass a malformed date through, cut to the
  first ten characters of \<open>createdAt\<close> or \<open>publishedAt\<close> whatever they are, and the article
  parser raises on a numeric \<open>createdAt\<close>.
\<close>

theorem dailydev_passes_malformed_date:
  "map dd_date (case parse_dailydev_response malformed_date_response of
                  Inl e \<Rightarrow> [] | Inr out \<Rightarrow> out) = [JStr ''not a date'']
   \<and> \<not> date_shape ''not a date''
   \<and> parse_dailydev_response numeric_date_response = Inl TypeError
   \<and> map yt_date (case parse_youtube_response sample_lib malformed_video_response of
                    Inl e \<Rightarrow> [] | Inr out \<Rightarrow> out) = [JStr ''last Tuesd'']
   \<and> \<not> date_shape ''last Tuesd''
   \<and> map r_date (case parse_reddit_response sample_lib dated_reddit_response of
                   Inl e \<Rightarrow> [] | Inr out \<Rightarrow> out) = [JStr ''2026-01-15'', JNull]
   \<and> map x_date (case parse_x_response sample_lib sample_x_response of
                   Inl e \<Rightarrow> [] | Inr out \<Rightarrow> out)
       = [Some ''2026-01-15'', Some ''2026-01-15'', None]"
proof (intro conjI)
  show "map dd_date (case parse_dailydev_response malformed_date_response of
                  Inl e \<Rightarrow> [] | Inr out \<Rightarrow> out) = [JStr ''not a date'']"
    by (simp add: sample_parse_malformed_date)
  show "\<not> date_shape ''not a date''"
    by (simp add: is_digit_def)
  show "parse_dailydev_response numeric_date_response = Inl TypeError"
    by (simp add: numeric_date_response_def parse_dailydev_response_def dget_def
        dd_parse_post_def py_strip_def strip_plain is_space_def iso_date_prefix_def)
  show "map yt_date (case parse_youtube_response sample_lib malformed_video_response of
                    Inl e \<Rightarrow> [] | Inr out \<Rightarrow> out) = [JStr ''last Tuesd'']"
    by (simp add: sample_parse_malformed_video)
  show "\<not> date_shape ''last Tuesd''"
    by (simp add: is_digit_def)
  show "map r_date (case parse_reddit_response sample_lib dated_reddit_response of
                   Inl e \<Rightarrow> [] | Inr out \<Rightarrow> out) = [JStr ''2026-01-15'', JNull]"
    by (simp add: sample_parse_dated_reddit)
  show "map x_date (case parse_x_response sample_lib sample_x_response of
                   Inl e \<Rightarrow> [] | Inr out \<Rightarrow> out)
       = [Some ''2026-01-15'', Some ''2026-01-15'', None]"
    by (simp add: sample_parse_x)
qed

text \<open>
  Where the dates of the items come from. A truthy date returned by the discussion parser
  matches \<^verbatim>\<open>^\d{4}-\d{2}-\d{2}$\<close>; a date returned by the social parser has that shape or is
  what \<open>strptime\<close> made of a string in the Twitter format. The date of an article or of a
  video is what \<open>iso_date_prefix\<close> makes of the \<open>createdAt\<close> or \<open>publishedAt\<close> of an entry of
  the response, for a string its first ten characters when it has at least ten and null
  otherwise.
\<close>

lemma dates_after_parse:
  "(parse_reddit_response L rresp = Inr routs \<and> ritem \<in> set routs \<and> truthy (r_date ritem)
    \<longrightarrow> re_match_date (py_str L (r_date ritem)))
   \<and> (parse_x_response L xresp = Inr xouts \<and> xitem \<in> set xouts \<and> x_date xitem = Some d
    \<longrightarrow> date_shape d \<or> (\<exists>s. strptime_twitter L s = Some d))
   \<and> (parse_dailydev_response dresp = Inr douts \<and> ditem \<in> set douts
    \<longrightarrow> (\<exists>ps post. py_iter (dget dresp ''posts'' (JList [])) = Inr ps \<and> JDict post \<in> set ps
          \<and> iso_date_prefix (dget post ''createdAt'' (JStr [])) = Inr (dd_date ditem)))
   \<and> (parse_youtube_response L yresp = Inr youts \<and> yitem \<in> set youts
    \<longrightarrow> (\<exists>vs video. py_iter (dget yresp ''videos'' (JList [])) = Inr vs \<and> JDict video \<in> set vs
          \<and> iso_date_prefix (dget video ''publishedAt'' (JStr [])) = Inr (yt_date yitem)))
   \<and> iso_date_prefix (JStr s) = Inr (if 10 \<le> length s then JStr (take 10 s) else JNull)"
proof (intro conjI impI)
  assume "parse_reddit_response L rresp = Inr routs \<and> ritem \<in> set routs \<and> truthy (r_date ritem)"
  then show "re_match_date (py_str L (r_date ritem))"
    using parse_reddit_response_item [of L rresp routs ritem]
    by (auto dest: reddit_clean_item_date)
next
  assume "parse_x_response L xresp = Inr xouts \<and> xitem \<in> set xouts \<and> x_date xitem = Some d"
  then show "date_shape d \<or> (\<exists>s. strptime_twitter L s = Some d)"
    using parse_x_response_item [of L xresp xouts xitem]
    by (auto dest: x_parse_tweet_date)
next
  assume "parse_dailydev_response dresp = Inr douts \<and> ditem \<in> set douts"
  then obtain ps n i p where "py_iter (dget dresp ''posts'' (JList [])) = Inr ps"
    and "p \<in> set ps" and "dd_parse_post n i p = Inr (Some ditem)"
    using parse_dailydev_response_item [of dresp douts ditem] by auto
  then show "\<exists>ps post. py_iter (dget dresp ''posts'' (JList [])) = Inr ps \<and> JDict post \<in> set ps
          \<and> iso_date_prefix (dget post ''createdAt'' (JStr [])) = Inr (dd_date ditem)"
    using dd_parse_post_date [of n i p ditem] by auto
next
  assume "parse_youtube_response L yresp = Inr youts \<and> yitem \<in> set youts"
  then obtain vs n i v where "py_iter (dget yresp ''videos'' (JList [])) = Inr vs"
    and "v \<in> set vs" and "yt_parse_video L n i v = Inr (Some yitem)"
    using parse_youtube_response_item [of L yresp youts yitem] by auto
  then show "\<exists>vs video. py_iter (dget yresp ''videos'' (JList [])) = Inr vs \<and> JDict video \<in> set vs
          \<and> iso_date_prefix (dget video ''publishedAt'' (JStr [])) = Inr (yt_date yitem)"
    using yt_parse_video_date [of L n i v yitem] by auto
next
  show "iso_date_prefix (JStr s) = Inr (if 10 \<le> length s then JStr (take 10 s) else JNull)"
    by (rule iso_date_prefix_str)
qed

lemma dates_after_parse_sample:
  "map r_date (case parse_reddit_response sample_lib dated_reddit_response of
                 Inl e \<Rightarrow> [] | Inr out \<Rightarrow> out) = [JStr ''2026-01-15'', JNull]
   \<and> re_match_date (py_str sample_lib (JStr ''2026-01-15''))
   \<and> map x_date (case parse_x_response sample_lib sample_x_response of
                    Inl e \<Rightarrow> [] | Inr out \<Rightarrow> out)
       = [Some ''2026-01-15'', Some ''2026-01-15'', None]
   \<and> date_shape ''2026-01-15''
   \<and> map dd_date (case parse_dailydev_response malformed_date_response of
                     Inl e \<Rightarrow> [] | Inr out \<Rightarrow> out) = [JStr ''not a date'']
   \<and> iso_date_prefix (JStr ''not a date at all'') = Inr (JStr ''not a date'')
   \<and> map yt_date (case parse_youtube_response sample_lib sample_youtube_response of
                     Inl e \<Rightarrow> [] | Inr out \<Rightarrow> out) = [JStr ''2026-01-22'']
   \<and> iso_date_prefix (JStr ''soon'') = Inr JNull"
  using dates_after_parse [of sample_lib dated_reddit_response
      "[\<lparr> r_id = ''R1'', r_title = [], r_url = JStr ''https://reddit.com/r/a/1'',
              r_subreddit = [], r_date = JStr ''2026-01-15'', r_why_relevant = [],
              r_relevance = 1 / 2 \<rparr>,
            \<lparr> r_id = ''R2'', r_title = [], r_url = JStr ''https://reddit.com/r/b/2'',
              r_subreddit = [], r_date = JNull, r_why_relevant = [],
              r_relevance = 1 / 2 \<rparr>]"
      "\<lparr> r_id = ''R1'', r_title = [], r_url = JStr ''https://reddit.com/r/a/1'',
              r_subreddit = [], r_date = JStr ''2026-01-15'', r_why_relevant = [],
              r_relevance = 1 / 2 \<rparr>"
      sample_x_response
      "[\<lparr> x_id = ''X1'', x_text = [], x_url = JStr ''https://x.com/a/status/1'',
              x_author_handle = [], x_date = Some ''2026-01-15'',
              x_eng = \<lparr> x_likes = 0, x_reposts = 0, x_replies = 0, x_quotes = 0 \<rparr>,
              x_why_relevant = [], x_relevance = 3 / 5 \<rparr>,
            \<lparr> x_id = ''X2'', x_text = [], x_url = JStr ''https://x.com/a/status/2'',
              x_author_handle = [], x_date = Some ''2026-01-15'',
              x_eng = \<lparr> x_likes = 0, x_reposts = 0, x_replies = 0, x_quotes = 0 \<rparr>,
              x_why_relevant = [], x_relevance = 9 / 20 \<rparr>,
            \<lparr> x_id = ''X3'', x_text = [], x_url = JStr ''https://x.com/a/status/3'',
              x_author_handle = [], x_date = None,
              x_eng = \<lparr> x_likes = 0, x_reposts = 0, x_replies = 0, x_quotes = 0 \<rparr>,
              x_why_relevant = [], x_relevance = 3 / 10 \<rparr>]"
      "\<lparr> x_id = ''X1'', x_text = [], x_url = JStr ''https://x.com/a/status/1'',
              x_author_handle = [], x_date = Some ''2026-01-15'',
              x_eng = \<lparr> x_likes = 0, x_reposts = 0, x_replies = 0, x_quotes = 0 \<rparr>,
              x_why_relevant = [], x_relevance = 3 / 5 \<rparr>"
      "''2026-01-15''"
      malformed_date_response
      "[\<lparr> dd_id = ''DD1'', dd_title = ''T'', dd_url = ''https://example.com/a'',
              dd_source_name = JStr [], dd_author_name = JStr [], dd_author_username = JStr [],
              dd_date = JStr ''not a date'', dd_summary = JStr [], dd_tags = JList [],
              dd_read_time = JNull, dd_engagement = None, dd_why_relevant = [],
              dd_relevance = 1 / 2 \<rparr>]"
      "\<lparr> dd_id = ''DD1'', dd_title = ''T'', dd_url = ''https://example.com/a'',
              dd_source_name = JStr [], dd_author_name = JStr [], dd_author_username = JStr [],
              dd_date = JStr ''not a date'', dd_summary = JStr [], dd_tags = JList [],
              dd_read_time = JNull, dd_engagement = None, dd_why_relevant = [],
              dd_relevance = 1 / 2 \<rparr>"
      sample_youtube_response
      "[\<lparr> yt_id = ''YT1'', yt_title = ''V'',
              yt_url = ''https://www.youtube.com/watch?v=abc'',
              yt_channel_name = JStr [], yt_channel_id = JStr [],
              yt_date = JStr ''2026-01-22'', yt_duration = JNull, yt_thumbnail = JStr [],
              yt_engagement = None, yt_why_relevant = [], yt_relevance = 2 / 5 \<rparr>]"
      "\<lparr> yt_id = ''YT1'', yt_title = ''V'',
              yt_url = ''https://www.youtube.com/watch?v=abc'',
              yt_channel_name = JStr [], yt_channel_id = JStr [],
              yt_date = JStr ''2026-01-22'', yt_duration = JNull, yt_thumbnail = JStr [],
              yt_engagement = None, yt_why_relevant = [], yt_relevance = 2 / 5 \<rparr>"
      "''soon''"]
  by (simp add: sample_parse_dated_reddit sample_parse_x sample_parse_malformed_date
      sample_parse_youtube re_match_date_def is_digit_def iso_date_prefix_def)

section \<open>Engagement counters of the parsed items\<close>

lemma x_count_nonneg:
  assumes "counter_ok (dget_none tweet k)" and "x_count L tweet k = Inr n"
  shows "0 \<le> n"
proof (cases "map_of tweet k")
  case None
  with assms(2) show ?thesis
    by (auto simp: x_count_def dget_def py_or_def)
next
  case (Some v)
  with assms show ?thesis
    by (cases v) (auto simp: x_count_def dget_def dget_none_def py_or_def split: if_splits)
qed

lemma x_parse_tweet_counters:
  assumes "x_parse_tweet L n i (JDict tweet) = Inr (Some it)"
    and "list_all (\<lambda>k. counter_ok (dget_none tweet k))
           [''likeCount'', ''retweetCount'', ''replyCount'', ''quoteCount'']"
  shows "0 \<le> x_likes (x_eng it) \<and> 0 \<le> x_reposts (x_eng it)
         \<and> 0 \<le> x_replies (x_eng it) \<and> 0 \<le> x_quotes (x_eng it)"
proof -
  from assms(1) obtain a b c d where
    "x_count L tweet ''likeCount'' = Inr a" "x_count L tweet ''retweetCount'' = Inr b"
    "x_count L tweet ''replyCount'' = Inr c" "x_count L tweet ''quoteCount'' = Inr d"
    "x_eng it = \<lparr> x_likes = a, x_reposts = b, x_replies = c, x_quotes = d \<rparr>"
    by (auto simp: x_parse_tweet_def Let_def ebind_eq_Inr split: option.splits)
  with assms(2) show ?thesis
    by (auto dest: x_count_nonneg)
qed

lemma dd_parse_post_counters:
  assumes "dd_parse_post n i (JDict post) = Inr (Some it)"
    and "list_all (\<lambda>k. counter_ok (dget_none post k)) [''upvotes'', ''comments'']"
    and "dd_engagement it = Some eng"
  shows "list_all (\<lambda>kv. counter_ok (snd kv)) eng"
  using assms
  by (auto simp: dd_parse_post_def Let_def ebind_eq_Inr split: if_splits)

lemma yt_parse_video_counters:
  assumes "yt_parse_video L n i (JDict video) = Inr (Some it)"
    and "list_all (\<lambda>k. counter_ok (dget_none video k)) [''views'', ''likes'', ''comments'']"
    and "yt_engagement it = Some eng"
  shows "list_all (\<lambda>kv. counter_ok (snd kv)) eng"
  using assms
  by (auto simp: yt_parse_video_def Let_def ebind_eq_Inr split: if_splits)

lemma counters_cleanD:
  assumes "counters_clean key names response"
    and "py_iter (dget response key (JList [])) = Inr entries" and "JDict d \<in> set entries"
  shows "list_all (\<lambda>k. counter_ok (dget_none d k)) names"
  using assms by (auto simp: counters_clean_def list_all_iff split: json.splits)

lemma sample_parse_negative_likes:
  "parse_x_response sample_lib negative_likes_response
     = Inr [\<lparr> x_id = ''X1'', x_text = [], x_url = JStr ''https://x.com/a/status/1'',
              x_author_handle = [], x_date = None,
              x_eng = \<lparr> x_likes = - 5, x_reposts = 0, x_replies = 0, x_quotes = 0 \<rparr>,
              x_why_relevant = [], x_relevance = 3 / 5 \<rparr>]"
  by (simp add: parse_x_response_def negative_likes_response_def dget_def dget_none_def
      x_parse_tweet_def x_tweet_url_def parse_created_at_def x_count_def py_or_def
      x_compute_relevance_def x_log_count_def py_max0_def log1p_zero str_nat_1 strip_def
      lstrip_chars_def sample_lib_def Let_def)

lemma sample_parse_counted_x:
  "parse_x_response sample_lib counted_x_response
     = Inr [\<lparr> x_id = ''X1'', x_text = [], x_url = JStr ''https://x.com/a/status/1'',
              x_author_handle = [], x_date = None,
              x_eng = \<lparr> x_likes = 7, x_reposts = 0, x_replies = 0, x_quotes = 0 \<rparr>,
              x_why_relevant = [],
              x_relevance = 3 / 5 + 2 / 5 * min 1 (11 * ln 8 / 140) \<rparr>]"
  by (simp add: parse_x_response_def counted_x_response_def dget_def dget_none_def
      x_parse_tweet_def x_tweet_url_def parse_created_at_def x_count_def py_or_def
      x_compute_relevance_def x_log_count_def py_max0_def log1p_zero log1p_def str_nat_1
      strip_def lstrip_chars_def sample_lib_def Let_def)

lemma sample_parse_counted_dailydev:
  "parse_dailydev_response counted_dailydev_response
     = Inr [\<lparr> dd_id = ''DD1'', dd_title = ''T'', dd_url = ''https://example.com/a'',
              dd_source_name = JStr [], dd_author_name = JStr [], dd_author_username = JStr [],
              dd_date = JNull, dd_summary = JStr [], dd_tags = JList [],
              dd_read_time = JNull,
              dd_engagement = Some [(''score'', JInt 3), (''num_comments'', JNull)],
              dd_why_relevant = [], dd_relevance = 1 / 2 + 1 / 2 * min 1 (11 * ln 4 / 140) \<rparr>]"
  by (simp add: counted_dailydev_response_def parse_dailydev_response_def dget_def
      dget_none_def dd_parse_post_def py_strip_def strip_plain is_space_def iso_date_prefix_def
      py_or_def attr_get_def dailydev_compute_relevance_def pos_score_floor_def py_min20_def
      log1p_zero log1p_def py_number_def str_nat_1 Let_def)

lemma sample_parse_counted_youtube:
  "parse_youtube_response sample_lib counted_youtube_response
     = Inr [\<lparr> yt_id = ''YT1'', yt_title = ''V'',
              yt_url = ''https://www.youtube.com/watch?v=abc'',
              yt_channel_name = JStr [], yt_channel_id = JStr [],
              yt_date = JNull, yt_duration = JNull, yt_thumbnail = JStr [],
              yt_engagement = Some [(''views'', JInt 10), (''likes'', JNull),
                                    (''num_comments'', JNull)],
              yt_why_relevant = [], yt_relevance = 2 / 5 + 3 / 5 * min 1 (ln 11 / 28) \<rparr>]"
  by (simp add: counted_youtube_response_def parse_youtube_response_def dget_def
      dget_none_def yt_parse_video_def py_strip_def strip_plain is_space_def
      iso_date_prefix_def py_or_def tubelab_compute_relevance_def pos_score_floor_def
      log1p_zero log1p_def str_nat_1 Let_def)

lemma sample_counters_clean:
  "counters_clean ''tweets'' [''likeCount'', ''retweetCount'', ''replyCount'', ''quoteCount'']
     counted_x_response"
  "counters_clean ''posts'' [''upvotes'', ''comments''] counted_dailydev_response"
  "counters_clean ''videos'' [''views'', ''likes'', ''comments''] counted_youtube_response"
  by (simp_all add: counters_clean_def counted_x_response_def counted_dailydev_response_def
      counted_youtube_response_def dget_def dget_none_def)

text \<open>
  C8 does not hold for every input: the social parser converts a like count of \<open>-5\<close> with
  \<^verbatim>\<open>int()\<close> and returns it as the counter.
\<close>

theorem parse_x_negative_counter:
  "map (\<lambda>it. x_likes (x_eng it))
     (case parse_x_response sample_lib negative_likes_response of
        Inl e \<Rightarrow> [] | Inr out \<Rightarrow> out) = [- 5]"
  by (simp add: sample_parse_negative_likes)

lemma parse_x_counters:
  assumes "counters_clean ''tweets''
             [''likeCount'', ''retweetCount'', ''replyCount'', ''quoteCount''] xresp"
    and "parse_x_response L xresp = Inr xouts" and "xitem \<in> set xouts"
  shows "0 \<le> x_likes (x_eng xitem) \<and> 0 \<le> x_reposts (x_eng xitem)
        \<and> 0 \<le> x_replies (x_eng xitem) \<and> 0 \<le> x_quotes (x_eng xitem)"
proof -
  from assms obtain ts n i tw where ts: "py_iter (dget xresp ''tweets'' (JList [])) = Inr ts"
    and tw: "tw \<in> set ts" and p: "x_parse_tweet L n i tw = Inr (Some xitem)"
    using parse_x_response_item [of L xresp xouts xitem] by auto
  from p obtain tweet where d: "tw = JDict tweet"
    by (auto simp: x_parse_tweet_def split: json.splits)
  have "list_all (\<lambda>k. counter_ok (dget_none tweet k))
          [''likeCount'', ''retweetCount'', ''replyCount'', ''quoteCount'']"
    using assms(1) ts tw d by (auto dest: counters_cleanD)
  with p d show ?thesis
    using x_parse_tweet_counters [of L n i tweet xitem] by simp
qed

lemma parse_dailydev_counters:
  assumes "counters_clean ''posts'' [''upvotes'', ''comments''] dresp"
    and "parse_dailydev_response dresp = Inr douts" and "ditem \<in> set douts"
    and "dd_engagement ditem = Some deng"
  shows "list_all (\<lambda>kv. counter_ok (snd kv)) deng"
proof -
  from assms obtain ps n i p where ps: "py_iter (dget dresp ''posts'' (JList [])) = Inr ps"
    and pm: "p \<in> set ps" and pp: "dd_parse_post n i p = Inr (Some ditem)"
    using parse_dailydev_response_item [of dresp douts ditem] by auto
  from pp obtain post where d: "p = JDict post"
    by (auto simp: dd_parse_post_def split: json.splits)
  have "list_all (\<lambda>k. counter_ok (dget_none post k)) [''upvotes'', ''comments'']"
    using assms(1) ps pm d by (auto dest: counters_cleanD)
  with pp d assms(4) show ?thesis
    using dd_parse_post_counters [of n i post ditem deng] by simp
qed

lemma parse_youtube_counters:
  assumes "counters_clean ''videos'' [''views'', ''likes'', ''comments''] yresp"
    and "parse_youtube_response L yresp = Inr youts" and "yitem \<in> set youts"
    and "yt_engagement yitem = Some yeng"
  shows "list_all (\<lambda>kv. counter_ok (snd kv)) yeng"
proof -
  from assms obtain vs n i v where vs: "py_iter (dget yresp ''videos'' (JList [])) = Inr vs"
    and vm: "v \<in> set vs" and vp: "yt_parse_video L n i v = Inr (Some yitem)"
    using parse_youtube_response_item [of L yresp youts yitem] by auto
  from vp obtain video where d: "v = JDict video"
    by (auto simp: yt_parse_video_def split: json.splits)
  have "list_all (\<lambda>k. counter_ok (dget_none video k)) [''views'', ''likes'', ''comments'']"
    using assms(1) vs vm d by (auto dest: counters_cleanD)
  with vp d assms(4) show ?thesis
    using yt_parse_video_counters [of L n i video yitem yeng] by simp
qed

text \<open>
  C8, amended. The parsers do not validate the engagement counters: the social parser
  converts them with \<^verbatim>\<open>int()\<close>, the article and the video parser pass the raw values on.
  When the raw engagement fields of the response are absent, null or non-negative integers,
  every counter of every parsed item is null or a non-negative integer.
\<close>

theorem counters_after_parse:
  "(counters_clean ''tweets'' [''likeCount'', ''retweetCount'', ''replyCount'', ''quoteCount'']
        xresp
      \<and> parse_x_response L xresp = Inr xouts \<and> xitem \<in> set xouts
    \<longrightarrow> 0 \<le> x_likes (x_eng xitem) \<and> 0 \<le> x_reposts (x_eng xitem)
        \<and> 0 \<le> x_replies (x_eng xitem) \<and> 0 \<le> x_quotes (x_eng xitem))
   \<and> (counters_clean ''posts'' [''upvotes'', ''comments''] dresp
      \<and> parse_dailydev_response dresp = Inr douts \<and> ditem \<in> set douts
      \<and> dd_engagement ditem = Some deng
    \<longrightarrow> list_all (\<lambda>kv. counter_ok (snd kv)) deng)
   \<and> (counters_clean ''videos'' [''views'', ''likes'', ''comments''] yresp
      \<and> parse_youtube_response L yresp = Inr youts \<and> yitem \<in> set youts
      \<and> yt_engagement yitem = Some yeng
    \<longrightarrow> list_all (\<lambda>kv. counter_ok (snd kv)) yeng)"
  using parse_x_counters [of xresp L xouts xitem]
    parse_dailydev_counters [of dresp douts ditem deng]
    parse_youtube_counters [of yresp L youts yitem yeng]
  by blast

theorem counters_after_parse_witness:
  "counters_clean ''tweets'' [''likeCount'', ''retweetCount'', ''replyCount'', ''quoteCount'']
     counted_x_response
   \<and> map x_eng (case parse_x_response sample_lib counted_x_response of
                   Inl e \<Rightarrow> [] | Inr out \<Rightarrow> out)
       = [\<lparr> x_likes = 7, x_reposts = 0, x_replies = 0, x_quotes = 0 \<rparr>]
   \<and> counters_clean ''posts'' [''upvotes'', ''comments''] counted_dailydev_response
   \<and> map dd_engagement (case parse_dailydev_response counted_dailydev_response of
                           Inl e \<Rightarrow> [] | Inr out \<Rightarrow> out)
       = [Some [(''score'', JInt 3), (''num_comments'', JNull)]]
   \<and> counters_clean ''videos'' [''views'', ''likes'', ''comments''] counted_youtube_response
   \<and> map yt_engagement (case parse_youtube_response sample_lib counted_youtube_response of
                           Inl e \<Rightarrow> [] | Inr out \<Rightarrow> out)
       = [Some [(''views'', JInt 10), (''likes'', JNull), (''num_comments'', JNull)]]"
  using counters_after_parse [of counted_x_response sample_lib
      "[\<lparr> x_id = ''X1'', x_text = [], x_url = JStr ''https://x.com/a/status/1'',
              x_author_handle = [], x_date = None,
              x_eng = \<lparr> x_likes = 7, x_reposts = 0, x_replies = 0, x_quotes = 0 \<rparr>,
              x_why_relevant = [],
              x_relevance = 3 / 5 + 2 / 5 * min 1 (11 * ln 8 / 140) \<rparr>]"
      "\<lparr> x_id = ''X1'', x_text = [], x_url = JStr ''https://x.com/a/status/1'',
              x_author_handle = [], x_date = None,
              x_eng = \<lparr> x_likes = 7, x_reposts = 0, x_replies = 0, x_quotes = 0 \<rparr>,
              x_why_relevant = [],
              x_relevance = 3 / 5 + 2 / 5 * min 1 (11 * ln 8 / 140) \<rparr>"
      counted_dailydev_response
      "[\<lparr> dd_id = ''DD1'', dd_title = ''T'', dd_url = ''https://example.com/a'',
              dd_source_name = JStr [], dd_author_name = JStr [], dd_author_username = JStr [],
              dd_date = JNull, dd_summary = JStr [], dd_tags = JList [],
              dd_read_time = JNull,
              dd_engagement = Some [(''score'', JInt 3), (''num_comments'', JNull)],
              dd_why_relevant = [], dd_relevance = 1 / 2 + 1 / 2 * min 1 (11 * ln 4 / 140) \<rparr>]"
      "\<lparr> dd_id = ''DD1'', dd_title = ''T'', dd_url = ''https://example.com/a'',
              dd_source_name = JStr [], dd_author_name = JStr [], dd_author_username = JStr [],
              dd_date = JNull, dd_summary = JStr [], dd_tags = JList [],
              dd_read_time = JNull,
              dd_engagement = Some [(''score'', JInt 3), (''num_comments'', JNull)],
              dd_why_relevant = [], dd_relevance = 1 / 2 + 1 / 2 * min 1 (11 * ln 4 / 140) \<rparr>"
      "[(''score'', JInt 3), (''num_comments'', JNull)]"
      counted_youtube_response
      "[\<lparr> yt_id = ''YT1'', yt_title = ''V'',
              yt_url = ''https://www.youtube.com/watch?v=abc'',
              yt_channel_name = JStr [], yt_channel_id = JStr [],
              yt_date = JNull, yt_duration = JNull, yt_thumbnail = JStr [],
              yt_engagement = Some [(''views'', JInt 10), (''likes'', JNull),
                                    (''num_comments'', JNull)],
              yt_why_relevant = [], yt_relevance = 2 / 5 + 3 / 5 * min 1 (ln 11 / 28) \<rparr>]"
      "\<lparr> yt_id = ''YT1'', yt_title = ''V'',
              yt_url = ''https://www.youtube.com/watch?v=abc'',
              yt_channel_name = JStr [], yt_channel_id = JStr [],
              yt_date = JNull, yt_duration = JNull, yt_thumbnail = JStr [],
              yt_engagement = Some [(''views'', JInt 10), (''likes'', JNull),
                                    (''num_comments'', JNull)],
              yt_why_relevant = [], yt_relevance = 2 / 5 + 3 / 5 * min 1 (ln 11 / 28) \<rparr>"
      "[(''views'', JInt 10), (''likes'', JNull), (''num_comments'', JNull)]"]
    sample_counters_clean
  by (simp add: sample_parse_counted_x sample_parse_counted_dailydev
      sample_parse_counted_youtube)

section \<open>The retry of the discussion search task\<close>

text \<open>The call that the task makes is one that \<open>search_reddit\<close> rejects, whatever the
  transport is.\<close>

lemma search_reddit_call_raises:
  "search_reddit L http (reddit_call api_key model topic from_date to_date depth)
     = Inl TypeError"
  by (simp add: search_reddit_def bind_args_def reddit_call_def)

lemma error_text_nonempty: "error_text L e \<noteq> []"
  by (cases e) (simp_all add: error_text_def)

lemma parse_error_response:
  "parse_reddit_value L (py_or (JDict [(''error'', v)]) (JDict [])) = Inr []"
  by (simp add: parse_reddit_value_def py_or_def parse_reddit_response_def extract_items_def
      find_output_text_def clean_items_def)

text \<open>The first query always ends in an error, and no retry follows an error.\<close>

lemma first_query_fails:
  "\<exists>e calls. first_query L http topic config selected_models from_date to_date depth
             = ((JDict [(''error'', JStr (exc_str L e))], Some (error_text L e)), calls)
           \<and> length calls \<le> 1"
  by (cases "map_of config ''OPENAI_API_KEY''"; cases "map_of selected_models ''openai''")
     (auto simp: first_query_def search_reddit_call_raises)

lemma after_error_no_retry:
  "after_first_query L http topic config selected_models from_date to_date depth
       (JDict [(''error'', v)]) (Some (error_text L e)) calls False
     = (Inr ([], JDict [(''error'', v)], Some (error_text L e)), calls)"
  by (simp add: after_first_query_def parse_error_response no_error_def error_text_nonempty)

text \<open>Had the first query returned fewer than five items without an error, the task would
  raise at the lookup of \<open>_extract_core_subject\<close>, before any retry.\<close>

lemma few_items_raise:
  assumes "parse_reddit_value L (py_or raw (JDict [])) = Inr reddit_items"
    and "length reddit_items < 5"
  shows "after_first_query L http topic config selected_models from_date to_date depth
           raw None calls False = (Inl AttributeError, calls)"
  using assms by (simp add: after_first_query_def no_error_def extract_core_subject_def)

text \<open>The retry itself, were it reached, would make the call that \<open>search_reddit\<close> rejects,
  swallow the exception and leave the items as they are.\<close>

lemma retry_query_unchanged:
  "fst (retry_query L http core config selected_models from_date to_date depth reddit_items)
     = reddit_items"
  by (cases "map_of config ''OPENAI_API_KEY''"; cases "map_of selected_models ''openai''")
     (simp_all add: retry_query_def search_reddit_call_raises)

lemma sample_parse_reddit:
  "parse_reddit_response sample_lib sample_reddit_response
     = Inr [\<lparr> r_id = ''R1'', r_title = ''X'',
              r_url = JStr ''https://www.reddit.com/r/a/comments/1'', r_subreddit = [],
              r_date = JNull, r_why_relevant = [], r_relevance = 1 / 2 \<rparr>]"
  by (simp add: parse_reddit_response_def sample_extract_items clean_items_def
      reddit_clean_item_def sample_entry_a_def sample_entry_b_def dget_def dget_none_def
      str_nat_1 strip_def is_space_def lstrip_chars_def Let_def)

text \<open>
  C9. When the first query gives fewer than five items without an error, outside mock
  mode, the task is meant to issue exactly one retry for the core subject and to merge the
  retry's new URLs. The code never does. Outside mock mode every run of the task ends with
  an error string, no items and at most one call of \<open>search_reddit\<close>, since the call it makes
  raises (C5): for the topic "best AI tools 2026" the one call is logged and the result is
  the \<^verbatim>\<open>TypeError\<close>. And a first pass of one item without an error, as the sample response
  gives, makes the task raise \<^verbatim>\<open>AttributeError\<close> at \<open>_extract_core_subject\<close> with no retry.
\<close>

theorem search_reddit_task_never_retries:
  "(\<exists>raw err calls.
      orch_search_reddit L http fixture topic config selected_models from_date to_date depth
          False
        = (Inr ([], raw, Some err), calls)
      \<and> err \<noteq> [] \<and> length calls \<le> 1)
   \<and> orch_search_reddit L http fixture ''best AI tools 2026''
         [(''OPENAI_API_KEY'', JStr ''k'')] [(''openai'', JStr ''m'')]
         ''2026-01-01'' ''2026-01-31'' ''default'' False
       = (Inr ([], JDict [(''error'', JStr (exc_str L TypeError))],
               Some (''TypeError: '' @ exc_str L TypeError)),
          [reddit_call (JStr ''k'') (JStr ''m'') ''best AI tools 2026'' ''2026-01-01''
             ''2026-01-31'' ''default''])
   \<and> after_first_query sample_lib http ''best AI tools 2026''
         [(''OPENAI_API_KEY'', JStr ''k'')] [(''openai'', JStr ''m'')]
         ''2026-01-01'' ''2026-01-31'' ''default''
         (JDict sample_reddit_response) None [] False
       = (Inl AttributeError, [])"
proof (intro conjI)
  obtain e calls where
    f: "first_query L http topic config selected_models from_date to_date depth
          = ((JDict [(''error'', JStr (exc_str L e))], Some (error_text L e)), calls)"
    and n: "length calls \<le> 1"
    using first_query_fails by blast
  have "orch_search_reddit L http fixture topic config selected_models from_date to_date
          depth False
        = (Inr ([], JDict [(''error'', JStr (exc_str L e))], Some (error_text L e)), calls)"
    by (simp add: orch_search_reddit_def f after_error_no_retry)
  with n show "\<exists>raw err calls.
      orch_search_reddit L http fixture topic config selected_models from_date to_date depth
          False
        = (Inr ([], raw, Some err), calls)
      \<and> err \<noteq> [] \<and> length calls \<le> 1"
    using error_text_nonempty by blast
next
  have f: "first_query L http ''best AI tools 2026'' [(''OPENAI_API_KEY'', JStr ''k'')]
             [(''openai'', JStr ''m'')] ''2026-01-01'' ''2026-01-31'' ''default''
          = ((JDict [(''error'', JStr (exc_str L TypeError))], Some (error_text L TypeError)),
             [reddit_call (JStr ''k'') (JStr ''m'') ''best AI tools 2026'' ''2026-01-01''
                ''2026-01-31'' ''default''])"
    by (simp add: first_query_def search_reddit_call_raises)
  have t: "error_text L TypeError = ''TypeError: '' @ exc_str L TypeError"
    by (simp add: error_text_def)
  show "orch_search_reddit L http fixture ''best AI tools 2026''
         [(''OPENAI_API_KEY'', JStr ''k'')] [(''openai'', JStr ''m'')]
         ''2026-01-01'' ''2026-01-31'' ''default'' False
       = (Inr ([], JDict [(''error'', JStr (exc_str L TypeError))],
               Some (''TypeError: '' @ exc_str L TypeError)),
          [reddit_call (JStr ''k'') (JStr ''m'') ''best AI tools 2026'' ''2026-01-01''
             ''2026-01-31'' ''default''])"
    using after_error_no_retry [of L http _ _ _ _ _ _ _ TypeError]
    by (simp add: orch_search_reddit_def f t del: append.simps)
next
  have "parse_reddit_value sample_lib (py_or (JDict sample_reddit_response) (JDict []))
          = Inr [\<lparr> r_id = ''R1'', r_title = ''X'',
              r_url = JStr ''https://www.reddit.com/r/a/comments/1'', r_subreddit = [],
              r_date = JNull, r_why_relevant = [], r_relevance = 1 / 2 \<rparr>]"
    using sample_parse_reddit
    by (simp add: parse_reddit_value_def py_or_def sample_reddit_response_def)
  from few_items_raise [OF this]
  show "after_first_query sample_lib http ''best AI tools 2026''
         [(''OPENAI_API_KEY'', JStr ''k'')] [(''openai'', JStr ''m'')]
         ''2026-01-01'' ''2026-01-31'' ''default''
         (JDict sample_reddit_response) None [] False
       = (Inl AttributeError, [])"
    by simp
qed

section \<open>Bounds of the relevance\<close>

text \<open>The discussion and the social parser clamp the relevance to the unit interval. The
  article and the video parser do not clamp: their relevance is at most 1, and it is
  negative for some inputs (see C1).\<close>

lemma reddit_relevance_bounded:
  assumes "parse_reddit_response L response = Inr out" and "it \<in> set out"
  shows "0 \<le> r_relevance it \<and> r_relevance it \<le> 1"
proof -
  from parse_reddit_response_item [OF assms] obtain i entry where
    "reddit_clean_item L i entry = Inr (Some it)" by blast
  then show ?thesis
    by (auto simp: reddit_clean_item_def Let_def ebind_eq_Inr split: json.splits if_splits)
qed

lemma x_relevance_bounded:
  assumes "parse_x_response L response = Inr out" and "it \<in> set out"
  shows "0 \<le> x_relevance it \<and> x_relevance it \<le> 1"
proof -
  from parse_x_response_item [OF assms] obtain n i tw where
    "x_parse_tweet L n i tw = Inr (Some it)" by blast
  then show ?thesis
    by (auto simp: x_parse_tweet_def Let_def ebind_eq_Inr split: json.splits option.splits)
qed

lemma dailydev_relevance_le_1:
  assumes "parse_dailydev_response response = Inr out" and "it \<in> set out"
  shows "dd_relevance it \<le> 1"
proof -
  from parse_dailydev_response_item [OF assms] obtain n i p where
    p: "dd_parse_post n i p = Inr (Some it)" by blast
  then obtain post where "p = JDict post"
    by (auto simp: dd_parse_post_def split: json.splits)
  with p have r: "dailydev_compute_relevance (int i) (int n) post = Inr (dd_relevance it)"
    by (auto simp: dd_parse_post_def Let_def ebind_eq_Inr split: if_splits)
  have pos: "pos_score_floor (int i) (int n) \<le> 1"
    by (rule pos_score_floor_le_1) simp
  from r obtain E where
    "0.5 * pos_score_floor (int i) (int n) + 0.5 * min 1 E = dd_relevance it"
    by (auto simp: dailydev_compute_relevance_def Let_def ebind_eq_Inr)
  moreover have "min 1 E \<le> 1" by simp
  ultimately show ?thesis using pos by linarith
qed

lemma youtube_relevance_le_1:
  assumes "parse_youtube_response L response = Inr out" and "it \<in> set out"
  shows "yt_relevance it \<le> 1"
proof -
  from parse_youtube_response_item [OF assms] obtain n i v where
    p: "yt_parse_video L n i v = Inr (Some it)" by blast
  then obtain video where "v = JDict video"
    by (auto simp: yt_parse_video_def split: json.splits)
  with p have r: "tubelab_compute_relevance (int i) (int n) video = Inr (yt_relevance it)"
    by (auto simp: yt_parse_video_def Let_def ebind_eq_Inr split: if_splits)
  have pos: "pos_score_floor (int i) (int n) \<le> 1"
    by (rule pos_score_floor_le_1) simp
  from r obtain E where
    "0.4 * pos_score_floor (int i) (int n) + 0.6 * min 1 E = yt_relevance it"
    by (auto simp: tubelab_compute_relevance_def Let_def ebind_eq_Inr)
  moreover have "min 1 E \<le> 1" by simp
  ultimately show ?thesis using pos by linarith
qed

end
